theory Spec2Isabelle
  imports Main "HOL-Library.Word" "HOL-Library.Sublist"
begin

section \<open>JavaScript strings and numbers\<close>

text \<open>
  A JavaScript string is the list of its UTF-16 code units. Form values, the echoed
  form data and the write payload are such strings; the fixed texts of the program
  (error messages, anchors, view names) are HOL string literals.
\<close>

type_synonym code_unit = "16 word"
type_synonym jsstring = "code_unit list"

definition js :: "string \<Rightarrow> jsstring" where
  "js s = map of_char s"

text \<open>
  \<open>String.prototype.trim\<close> and \<open>parseInt\<close> strip the code points of WhiteSpace and
  LineTerminator: TAB, LF, VT, FF, CR, SPACE, NBSP, U+1680, U+2000..U+200A, U+2028,
  U+2029, U+202F, U+205F, U+3000 and U+FEFF.
\<close>

definition isWhiteSpace :: "code_unit \<Rightarrow> bool" where
  "isWhiteSpace c \<longleftrightarrow>
     c = 0x9 \<or> c = 0xA \<or> c = 0xB \<or> c = 0xC \<or> c = 0xD \<or> c = 0x20 \<or> c = 0xA0 \<or>
     c = 0x1680 \<or> (0x2000 \<le> c \<and> c \<le> 0x200A) \<or> c = 0x2028 \<or> c = 0x2029 \<or>
     c = 0x202F \<or> c = 0x205F \<or> c = 0x3000 \<or> c = 0xFEFF"

definition trim :: "jsstring \<Rightarrow> jsstring" where
  "trim s = rev (dropWhile isWhiteSpace (rev (dropWhile isWhiteSpace s)))"

text \<open>
  The numbers of this program are results of \<open>parseInt\<close>, of the \<open>Date\<close> getters and
  of integer arithmetic on them: a JavaScript Number is modelled as an integer or NaN
  (\<open>None\<close>). The integers are exact; a double rounds only beyond \<open>2^53\<close>, where every
  date built from the number is already out of range (see \<open>TimeClip\<close>) and every
  range test of the program has the same outcome on the rounded value.
\<close>

type_synonym jsnum = "int option"

text \<open>The value of a code unit as a digit: 0-9, then a-z and A-Z as 10..35.\<close>

definition digitValue :: "code_unit \<Rightarrow> int option" where
  "digitValue c =
     (if 0x30 \<le> c \<and> c \<le> 0x39 then Some (uint c - 0x30)
      else if 0x61 \<le> c \<and> c \<le> 0x7A then Some (uint c - 0x61 + 10)
      else if 0x41 \<le> c \<and> c \<le> 0x5A then Some (uint c - 0x41 + 10)
      else None)"

definition isRadixDigit :: "int \<Rightarrow> code_unit \<Rightarrow> bool" where
  "isRadixDigit R c = (case digitValue c of None \<Rightarrow> False | Some v \<Rightarrow> v < R)"

definition radixValue :: "int \<Rightarrow> jsstring \<Rightarrow> int" where
  "radixValue R Z = foldl (\<lambda>a c. a * R + the (digitValue c)) 0 Z"

text \<open>
  \<open>parseInt(string)\<close> with no radix argument (ECMAScript 19.2.5): leading white space
  is skipped, a sign is read, a \<open>0x\<close> or \<open>0X\<close> prefix selects radix 16, the longest prefix
  of digits is the number, and no digit at all is NaN. \<open>parseDigits\<close> is the part of
  the algorithm after the sign.
\<close>

definition hasHexPrefix :: "jsstring \<Rightarrow> bool" where
  "hasHexPrefix S \<longleftrightarrow> 2 \<le> length S \<and> S ! 0 = 0x30 \<and> (S ! 1 = 0x78 \<or> S ! 1 = 0x58)"

definition parseDigits :: "jsstring \<Rightarrow> jsnum" where
  "parseDigits S =
     (let R = (if hasHexPrefix S then 16 else 10);
          S = (if hasHexPrefix S then drop 2 S else S);
          Z = takeWhile (isRadixDigit R) S
      in if Z = [] then None else Some (radixValue R Z))"

definition parseInt :: "jsstring \<Rightarrow> jsnum" where
  "parseInt inputString =
     (let S = dropWhile isWhiteSpace inputString;
          sign = (if S \<noteq> [] \<and> hd S = 0x2D then - 1 else 1);
          S = (if S \<noteq> [] \<and> (hd S = 0x2B \<or> hd S = 0x2D) then tl S else S)
      in map_option (\<lambda>mathInt. sign * mathInt) (parseDigits S))"

text \<open>\<open>isNaN\<close>, and the comparisons of numbers: every comparison with NaN is false,
  so \<open>!=\<close> and \<open>!==\<close> with NaN are true.\<close>

definition isNaN :: "jsnum \<Rightarrow> bool" where
  "isNaN x = (x = None)"

definition num_lt :: "jsnum \<Rightarrow> jsnum \<Rightarrow> bool" where
  "num_lt a b = (case (a, b) of (Some x, Some y) \<Rightarrow> x < y | _ \<Rightarrow> False)"

definition num_le :: "jsnum \<Rightarrow> jsnum \<Rightarrow> bool" where
  "num_le a b = (case (a, b) of (Some x, Some y) \<Rightarrow> x \<le> y | _ \<Rightarrow> False)"

definition num_gt :: "jsnum \<Rightarrow> jsnum \<Rightarrow> bool" where
  "num_gt a b = num_lt b a"

definition num_neq :: "jsnum \<Rightarrow> jsnum \<Rightarrow> bool" where
  "num_neq a b = (case (a, b) of (Some x, Some y) \<Rightarrow> x \<noteq> y | _ \<Rightarrow> True)"

definition num_minus :: "jsnum \<Rightarrow> int \<Rightarrow> jsnum" where
  "num_minus a k = map_option (\<lambda>x. x - k) a"

definition num_plus :: "jsnum \<Rightarrow> int \<Rightarrow> jsnum" where
  "num_plus a k = map_option (\<lambda>x. x + k) a"

text \<open>\<open>Number.prototype.toString\<close> on an integer or NaN, and \<open>padStart(2, '0')\<close>.\<close>

fun natDigits :: "nat \<Rightarrow> jsstring" where
  "natDigits n = (if n < 10 then [of_nat (48 + n)] else natDigits (n div 10) @ [of_nat (48 + n mod 10)])"

declare natDigits.simps [simp del]

definition numToString :: "jsnum \<Rightarrow> jsstring" where
  "numToString x =
     (case x of None \<Rightarrow> js ''NaN''
      | Some i \<Rightarrow> if i < 0 then 0x2D # natDigits (nat (- i)) else natDigits (nat i))"

definition padStart2 :: "jsstring \<Rightarrow> jsstring" where
  "padStart2 s = replicate (2 - length s) 0x30 @ s"

section \<open>The calendar of ECMAScript (21.4.1)\<close>

definition msPerDay :: int where
  "msPerDay = 86400000"

definition Day :: "int \<Rightarrow> int" where
  "Day t = t div msPerDay"

definition DaysInYear :: "int \<Rightarrow> int" where
  "DaysInYear y =
     (if y mod 4 \<noteq> 0 then 365 else if y mod 100 \<noteq> 0 then 366
      else if y mod 400 \<noteq> 0 then 365 else 366)"

definition DayFromYear :: "int \<Rightarrow> int" where
  "DayFromYear y =
     365 * (y - 1970) + (y - 1969) div 4 - (y - 1901) div 100 + (y - 1601) div 400"

text \<open>
  \<open>YearFromTime t\<close> is the largest year \<open>y\<close> with \<open>DayFromYear y \<le> Day t\<close>. It is
  computed from the day number counted from 1 January of year 1, by the cycles of
  400, 100, 4 and 1 years; \<open>YearFromDay_lower\<close> and \<open>YearFromDay_upper\<close> below
  prove that the result is that year.
\<close>

definition YearFromDay :: "int \<Rightarrow> int" where
  "YearFromDay d =
     (let n = d + 719162;
          n400 = n div 146097; r400 = n mod 146097;
          n100 = min (r400 div 36524) 3; r100 = r400 - n100 * 36524;
          n4 = r100 div 1461; r4 = r100 mod 1461;
          n1 = min (r4 div 365) 3
      in 400 * n400 + 100 * n100 + 4 * n4 + n1 + 1)"

definition YearFromTime :: "int \<Rightarrow> int" where
  "YearFromTime t = YearFromDay (Day t)"

definition InLeapYear :: "int \<Rightarrow> int" where
  "InLeapYear t = (if DaysInYear (YearFromTime t) = 366 then 1 else 0)"

definition DayWithinYear :: "int \<Rightarrow> int" where
  "DayWithinYear t = Day t - DayFromYear (YearFromTime t)"

definition MonthFromTime :: "int \<Rightarrow> int" where
  "MonthFromTime t =
     (let d = DayWithinYear t; l = InLeapYear t
      in if d < 31 then 0
         else if d < 59 + l then 1
         else if d < 90 + l then 2
         else if d < 120 + l then 3
         else if d < 151 + l then 4
         else if d < 181 + l then 5
         else if d < 212 + l then 6
         else if d < 243 + l then 7
         else if d < 273 + l then 8
         else if d < 304 + l then 9
         else if d < 334 + l then 10
         else 11)"

definition DateFromTime :: "int \<Rightarrow> int" where
  "DateFromTime t =
     (let d = DayWithinYear t; l = InLeapYear t; m = MonthFromTime t
      in if m = 0 then d + 1
         else if m = 1 then d - 30
         else if m = 2 then d - 58 - l
         else if m = 3 then d - 89 - l
         else if m = 4 then d - 119 - l
         else if m = 5 then d - 150 - l
         else if m = 6 then d - 180 - l
         else if m = 7 then d - 211 - l
         else if m = 8 then d - 242 - l
         else if m = 9 then d - 272 - l
         else if m = 10 then d - 303 - l
         else d - 333 - l)"

text \<open>The number of days of a year that lie before its month \<open>mn\<close> (0 = January).\<close>

definition DaysBeforeMonth :: "int \<Rightarrow> int \<Rightarrow> int" where
  "DaysBeforeMonth l mn =
     (if mn = 0 then 0
      else if mn = 1 then 31
      else if mn = 2 then 59 + l
      else if mn = 3 then 90 + l
      else if mn = 4 then 120 + l
      else if mn = 5 then 151 + l
      else if mn = 6 then 181 + l
      else if mn = 7 then 212 + l
      else if mn = 8 then 243 + l
      else if mn = 9 then 273 + l
      else if mn = 10 then 304 + l
      else 334 + l)"

text \<open>
  \<open>MakeDay\<close>: the day number of the first day of month \<open>mn\<close> of year \<open>ym\<close>, plus
  \<open>dt - 1\<close>. Months outside 0..11 carry into the year. The range of time values is
  enforced by \<open>TimeClip\<close> when the date is stored.
\<close>

definition MakeDay :: "int \<Rightarrow> int \<Rightarrow> int \<Rightarrow> int" where
  "MakeDay year month date =
     (let ym = year + month div 12; mn = month mod 12;
          l = (if DaysInYear ym = 366 then 1 else 0)
      in DayFromYear ym + DaysBeforeMonth l mn + date - 1)"

definition MakeTime :: "int \<Rightarrow> int \<Rightarrow> int \<Rightarrow> int \<Rightarrow> int" where
  "MakeTime hour minute sec ms = hour * 3600000 + minute * 60000 + sec * 1000 + ms"

definition MakeDate :: "int \<Rightarrow> int \<Rightarrow> int" where
  "MakeDate day time = day * msPerDay + time"

definition TimeClip :: "int \<Rightarrow> jsnum" where
  "TimeClip time = (if \<bar>time\<bar> > 8640000000000000 then None else Some time)"

definition MakeFullYear :: "int \<Rightarrow> int" where
  "MakeFullYear y = (if 0 \<le> y \<and> y \<le> 99 then 1900 + y else y)"

section \<open>The host and Date objects\<close>

text \<open>
  What the program reads from its host: the local time zone adjustment in
  milliseconds (taken as constant: daylight-saving transitions are not modelled),
  the system clock as a time value, and the formatter behind
  \<open>toLocaleDateString('en-GB', ...)\<close>, which belongs to the host's Intl library.
\<close>

record host =
  tza :: int
  now :: int
  toLocaleDateString :: "jsnum \<Rightarrow> jsstring"

definition LocalTime :: "host \<Rightarrow> int \<Rightarrow> int" where
  "LocalTime h t = t + tza h"

definition UTC :: "host \<Rightarrow> int \<Rightarrow> int" where
  "UTC h t = t - tza h"

text \<open>A Date object is its time value; NaN is the Invalid Date.\<close>

type_synonym jsdate = jsnum

text \<open>\<open>new Date(year, month, date)\<close>: local midnight of that day, two-digit years
  counted from 1900, NaN when an argument is NaN or the result is out of range.\<close>

definition newDate :: "host \<Rightarrow> jsnum \<Rightarrow> jsnum \<Rightarrow> jsnum \<Rightarrow> jsdate" where
  "newDate h year month date =
     (case (year, month, date) of
        (Some y, Some m, Some dt) \<Rightarrow>
          TimeClip (UTC h (MakeDate (MakeDay (MakeFullYear y) m dt) (MakeTime 0 0 0 0)))
      | _ \<Rightarrow> None)"

definition getDate :: "host \<Rightarrow> jsdate \<Rightarrow> jsnum" where
  "getDate h d = map_option (\<lambda>t. DateFromTime (LocalTime h t)) d"

definition getMonth :: "host \<Rightarrow> jsdate \<Rightarrow> jsnum" where
  "getMonth h d = map_option (\<lambda>t. MonthFromTime (LocalTime h t)) d"

definition getFullYear :: "host \<Rightarrow> jsdate \<Rightarrow> jsnum" where
  "getFullYear h d = map_option (\<lambda>t. YearFromTime (LocalTime h t)) d"

text \<open>\<open>today.setHours(0, 0, 0, 0)\<close>.\<close>

definition setHours0 :: "host \<Rightarrow> jsdate \<Rightarrow> jsdate" where
  "setHours0 h d =
     (case d of None \<Rightarrow> None
      | Some t \<Rightarrow> TimeClip (UTC h (MakeDate (Day (LocalTime h t)) (MakeTime 0 0 0 0))))"

text \<open>
  A date-time string (the \<open>dueDate\<close>, \<open>createdAt\<close> and \<open>updatedAt\<close> of the task API, the
  result of \<open>toISOString\<close>) is modelled by the time value that \<open>Date.parse\<close> gives it,
  NaN for a string that is no date. \<open>toISOString\<close> writes the time value of a valid
  date, which \<open>Date.parse\<close> reads back unchanged, and throws a RangeError on the
  Invalid Date.
\<close>

type_synonym datestring = jsnum

datatype js_error = RangeError | TypeError | AxiosError

definition toISOString :: "jsdate \<Rightarrow> js_error + datestring" where
  "toISOString d = (case d of None \<Rightarrow> Inl RangeError | Some t \<Rightarrow> Inr (Some t))"

definition parseDate :: "datestring \<Rightarrow> jsdate" where
  "parseDate s = s"

section \<open>Server: the task routes (src/main/routes/home.ts)\<close>

datatype task_status = TODO | IN_PROGRESS | COMPLETED | CANCELLED

text \<open>\<open>TaskApiResponse\<close>; a \<open>dueDate\<close> of \<open>None\<close> is \<open>null\<close> (the empty string, falsy
  as well, is identified with it).\<close>

record Task =
  task_id :: int
  task_title :: jsstring
  task_description :: jsstring
  task_status :: task_status
  dueDate :: "datestring option"
  createdAt :: datestring
  updatedAt :: datestring

record TaskListItem = Task +
  formattedDueDate :: "jsstring option"
  isOverdue :: bool

record TaskDetail = TaskListItem +
  formattedCreatedAt :: jsstring
  formattedUpdatedAt :: jsstring
  dueDateDay :: jsstring
  dueDateMonth :: jsstring
  dueDateYear :: jsstring

definition formatTask :: "host \<Rightarrow> Task \<Rightarrow> TaskListItem" where
  "formatTask h task =
     Task.extend task
       (TaskListItem.fields
          (case dueDate task of
             Some s \<Rightarrow> Some (toLocaleDateString h (parseDate s))
           | None \<Rightarrow> None)
          (case dueDate task of
             Some s \<Rightarrow> num_lt (parseDate s) (Some (now h)) \<and> task_status task \<noteq> COMPLETED
           | None \<Rightarrow> False))"

definition formatTasksWithDates :: "host \<Rightarrow> Task list \<Rightarrow> TaskListItem list" where
  "formatTasksWithDates h tasks = map (formatTask h) tasks"

definition formatSingleTask :: "host \<Rightarrow> Task \<Rightarrow> TaskDetail" where
  "formatSingleTask h task =
     (let dueDate = (case dueDate task of Some s \<Rightarrow> Some (parseDate s) | None \<Rightarrow> None);
          createdAt = parseDate (createdAt task);
          updatedAt = parseDate (updatedAt task)
      in TaskListItem.extend
           (Task.extend task
              (TaskListItem.fields
                 (case dueDate of Some d \<Rightarrow> Some (toLocaleDateString h d) | None \<Rightarrow> None)
                 (case dueDate of
                    Some d \<Rightarrow> num_lt d (Some (now h)) \<and> task_status task \<noteq> COMPLETED
                  | None \<Rightarrow> False)))
           (TaskDetail.fields
              (toLocaleDateString h createdAt)
              (toLocaleDateString h updatedAt)
              (case dueDate of
                 Some d \<Rightarrow> padStart2 (numToString (getDate h d)) | None \<Rightarrow> [])
              (case dueDate of
                 Some d \<Rightarrow> padStart2 (numToString (num_plus (getMonth h d) 1)) | None \<Rightarrow> [])
              (case dueDate of
                 Some d \<Rightarrow> numToString (getFullYear h d) | None \<Rightarrow> [])))"

text \<open>\<open>TaskFormData\<close>, the body of a submitted form. A field that was not submitted is
  \<open>undefined\<close> (\<open>None\<close>).\<close>

record TaskFormData =
  title :: "jsstring option"
  description :: "jsstring option"
  status :: "jsstring option"
  due_date_day :: "jsstring option"
  due_date_month :: "jsstring option"
  due_date_year :: "jsstring option"

record FieldError =
  error_text :: string
  error_href :: string

text \<open>Truthiness of a string or \<open>undefined\<close>; \<open>parseInt(undefined)\<close> is NaN.\<close>

definition truthy :: "jsstring option \<Rightarrow> bool" where
  "truthy v = (case v of None \<Rightarrow> False | Some s \<Rightarrow> s \<noteq> [])"

definition parseInt_opt :: "jsstring option \<Rightarrow> jsnum" where
  "parseInt_opt v = (case v of None \<Rightarrow> None | Some s \<Rightarrow> parseInt s)"

definition push :: "FieldError list \<Rightarrow> string \<Rightarrow> string \<Rightarrow> FieldError list" where
  "push errors t a = errors @ [\<lparr>error_text = t, error_href = a\<rparr>]"

text \<open>
  The validation of POST /tasks/create (lines 173-202) and of POST /tasks/:id/edit
  (lines 279-308); the two handlers hold the same statements. The result is the
  \<open>errors\<close> array and \<open>dueDate\<close>, or the exception thrown.
\<close>

definition validateTaskForm ::
  "host \<Rightarrow> TaskFormData \<Rightarrow> js_error + (FieldError list \<times> datestring option)" where
  "validateTaskForm h body =
     (let dueDay = due_date_day body;
          dueMonth = due_date_month body;
          dueYear = due_date_year body;
          errors = [];
          errors = (if \<not> truthy (map_option trim (title body))
                    then push errors ''Title is required'' ''#title'' else errors);
          errors = (if \<not> truthy (map_option trim (description body))
                    then push errors ''Description is required'' ''#description'' else errors)
      in if truthy dueDay \<or> truthy dueMonth \<or> truthy dueYear then
           if \<not> truthy dueDay \<or> \<not> truthy dueMonth \<or> \<not> truthy dueYear then
             Inr (push errors ''Please enter a complete due date or leave all fields blank''
                    ''#due-date-day'', None)
           else
             let dateObj = newDate h (parseInt_opt dueYear)
                             (num_minus (parseInt_opt dueMonth) 1) (parseInt_opt dueDay)
             in if num_neq (getDate h dateObj) (parseInt_opt dueDay) \<or>
                   num_neq (getMonth h dateObj) (num_minus (parseInt_opt dueMonth) 1) then
                  Inr (push errors ''Please enter a valid due date'' ''#due-date-day'', None)
                else
                  let today = setHours0 h (Some (now h))
                  in if num_le dateObj today then
                       Inr (push errors ''Due date must be in the future'' ''#due-date-day'',
                            None)
                     else
                       (case toISOString dateObj of
                          Inl e \<Rightarrow> Inl e
                        | Inr s \<Rightarrow> Inr (errors, Some s))
         else Inr (errors, None))"

text \<open>
  The remote task API, as the two POST handlers see it: each call of axios resolves or
  rejects. The GET calls of one request are numbered, since the API may answer the
  second differently from the first.
\<close>

datatype 'a promise = Resolved 'a | Rejected

record TaskPayload =
  payload_title :: jsstring
  payload_description :: jsstring
  payload_status :: "jsstring option"
  payload_dueDate :: "datestring option"

record backend =
  axios_post :: "TaskPayload \<Rightarrow> unit promise"
  axios_put :: "jsstring \<Rightarrow> TaskPayload \<Rightarrow> unit promise"
  axios_get :: "nat \<Rightarrow> jsstring \<Rightarrow> Task promise"

record Request =
  body :: TaskFormData
  params_id :: jsstring
  csrfToken_call :: "jsstring option"

text \<open>The data bag given to \<open>res.render\<close>; a key that is not set is \<open>None\<close>.\<close>

record DataBag =
  task :: "TaskDetail option"
  errors :: "FieldError list option"
  error :: "string option"
  formData :: "TaskFormData option"
  csrfToken :: "jsstring option"
  message :: "string option"

datatype response = Render string DataBag | Redirect jsstring

definition emptyBag :: DataBag where
  "emptyBag = \<lparr>task = None, errors = None, error = None, formData = None,
                csrfToken = None, message = None\<rparr>"

text \<open>\<open>(req as any).csrfToken?.() || 'csrf-token-placeholder'\<close>\<close>

definition csrfTokenOf :: "Request \<Rightarrow> jsstring" where
  "csrfTokenOf req =
     (if truthy (csrfToken_call req) then the (csrfToken_call req)
      else js ''csrf-token-placeholder'')"

text \<open>POST /tasks/create (lines 166-229).\<close>

definition createCatch :: "Request \<Rightarrow> response" where
  "createCatch req =
     Render ''tasks/create''
       (emptyBag\<lparr>error := Some ''Failed to create task. Please try again.'',
                 formData := Some (body req),
                 csrfToken := Some (csrfTokenOf req)\<rparr>)"

definition postTasksCreate :: "host \<Rightarrow> backend \<Rightarrow> Request \<Rightarrow> response" where
  "postTasksCreate h api req =
     (case validateTaskForm h (body req) of
        Inl e \<Rightarrow> createCatch req
      | Inr (errs, due) \<Rightarrow>
          if length errs > 0 then
            Render ''tasks/create''
              (emptyBag\<lparr>errors := Some errs,
                        formData := Some (body req),
                        csrfToken := Some (csrfTokenOf req)\<rparr>)
          else
            (case (title (body req), description (body req)) of
               (Some t, Some d) \<Rightarrow>
                 (case axios_post api
                         \<lparr>payload_title = trim t,
                          payload_description = trim d,
                          payload_status =
                            (if truthy (status (body req)) then status (body req)
                             else Some (js ''TODO'')),
                          payload_dueDate = due\<rparr> of
                    Resolved u \<Rightarrow> Redirect (js ''/'')
                  | Rejected \<Rightarrow> createCatch req)
             | _ \<Rightarrow> createCatch req))"

text \<open>POST /tasks/:id/edit (lines 272-346). \<open>editCatch n\<close> is the catch block when
  \<open>n\<close> GET calls were made before it.\<close>

definition editCatch :: "host \<Rightarrow> backend \<Rightarrow> Request \<Rightarrow> nat \<Rightarrow> response" where
  "editCatch h api req n =
     (case axios_get api n (params_id req) of
        Resolved taskData \<Rightarrow>
          Render ''tasks/edit''
            (emptyBag\<lparr>task := Some (formatSingleTask h taskData),
                      error := Some ''Failed to update task. Please try again.'',
                      formData := Some (body req),
                      csrfToken := Some (csrfTokenOf req)\<rparr>)
      | Rejected \<Rightarrow>
          Render ''error'' (emptyBag\<lparr>message := Some ''Failed to update task''\<rparr>))"

definition postTasksEdit :: "host \<Rightarrow> backend \<Rightarrow> Request \<Rightarrow> response" where
  "postTasksEdit h api req =
     (case validateTaskForm h (body req) of
        Inl e \<Rightarrow> editCatch h api req 0
      | Inr (errs, due) \<Rightarrow>
          if length errs > 0 then
            (case axios_get api 0 (params_id req) of
               Resolved taskData \<Rightarrow>
                 Render ''tasks/edit''
                   (emptyBag\<lparr>task := Some (formatSingleTask h taskData),
                             errors := Some errs,
                             formData := Some (body req),
                             csrfToken := Some (csrfTokenOf req)\<rparr>)
             | Rejected \<Rightarrow> editCatch h api req 1)
          else
            (case (title (body req), description (body req)) of
               (Some t, Some d) \<Rightarrow>
                 (case axios_put api (params_id req)
                         \<lparr>payload_title = trim t,
                          payload_description = trim d,
                          payload_status = status (body req),
                          payload_dueDate = due\<rparr> of
                    Resolved u \<Rightarrow> Redirect (js ''/tasks/'' @ params_id req)
                  | Rejected \<Rightarrow> editCatch h api req 0)
             | _ \<Rightarrow> editCatch h api req 0))"

section \<open>Client: the submit handler of the task forms (task-validation.js)\<close>

text \<open>
  What the handler reads from the form: the value of each input it looks up, \<open>None\<close>
  when the form has no such element. Its state is \<open>hasErrors\<close> and the \<open>errors\<close>
  array; the submission is prevented when \<open>hasErrors\<close> is set.
\<close>

record TaskFormElements =
  titleInput :: "jsstring option"
  descriptionInput :: "jsstring option"
  dayInput :: "jsstring option"
  monthInput :: "jsstring option"
  yearInput :: "jsstring option"

type_synonym client_state = "bool \<times> FieldError list"

definition addError :: "client_state \<Rightarrow> string \<Rightarrow> string \<Rightarrow> client_state" where
  "addError st t a = (True, push (snd st) t a)"

definition clientTitle :: "TaskFormElements \<Rightarrow> client_state \<Rightarrow> client_state" where
  "clientTitle form st =
     (case titleInput form of
        None \<Rightarrow> st
      | Some v \<Rightarrow>
          let title = trim v
          in if title = [] then addError st ''Title is required'' ''#title''
             else if length title < 3 then
               addError st ''Title must be at least 3 characters long'' ''#title''
             else st)"

definition clientDescription :: "TaskFormElements \<Rightarrow> client_state \<Rightarrow> client_state" where
  "clientDescription form st =
     (case descriptionInput form of
        None \<Rightarrow> st
      | Some v \<Rightarrow>
          let description = trim v
          in if description = [] then
               addError st ''Description is required'' ''#description''
             else if length description < 10 then
               addError st ''Description must be at least 10 characters long'' ''#description''
             else st)"

definition clientDueDate :: "host \<Rightarrow> TaskFormElements \<Rightarrow> client_state \<Rightarrow> client_state" where
  "clientDueDate h form st =
     (case (dayInput form, monthInput form, yearInput form) of
        (Some dv, Some mv, Some yv) \<Rightarrow>
          let day = trim dv; month = trim mv; year = trim yv
          in if day \<noteq> [] \<or> month \<noteq> [] \<or> year \<noteq> [] then
               if day = [] \<or> month = [] \<or> year = [] then
                 addError st ''Please enter a complete due date or leave all fields blank''
                   ''#due-date-day''
               else
                 let dayNum = parseInt day;
                     monthNum = parseInt month;
                     yearNum = parseInt year
                 in if isNaN dayNum \<or> isNaN monthNum \<or> isNaN yearNum \<or>
                       num_lt dayNum (Some 1) \<or> num_gt dayNum (Some 31) \<or>
                       num_lt monthNum (Some 1) \<or> num_gt monthNum (Some 12) \<or>
                       num_lt yearNum (Some 2020) then
                      addError st ''Please enter a valid due date'' ''#due-date-day''
                    else
                      let dateObj = newDate h yearNum (num_minus monthNum 1) dayNum
                      in if num_neq (getDate h dateObj) dayNum \<or>
                            num_neq (getMonth h dateObj) (num_minus monthNum 1) then
                           addError st ''Please enter a valid due date'' ''#due-date-day''
                         else
                           let today = setHours0 h (Some (now h))
                           in if num_lt dateObj today then
                                addError st ''Due date cannot be in the past'' ''#due-date-day''
                              else st
             else st
      | _ \<Rightarrow> st)"

definition taskFormSubmit :: "host \<Rightarrow> TaskFormElements \<Rightarrow> client_state" where
  "taskFormSubmit h form =
     clientDueDate h form (clientDescription form (clientTitle form (False, [])))"

section \<open>The errors of the two validators\<close>

definition titleRequired :: FieldError where
  "titleRequired = \<lparr>error_text = ''Title is required'', error_href = ''#title''\<rparr>"

definition descriptionRequired :: FieldError where
  "descriptionRequired =
     \<lparr>error_text = ''Description is required'', error_href = ''#description''\<rparr>"

definition incompleteDate :: FieldError where
  "incompleteDate =
     \<lparr>error_text = ''Please enter a complete due date or leave all fields blank'',
      error_href = ''#due-date-day''\<rparr>"

definition invalidDate :: FieldError where
  "invalidDate = \<lparr>error_text = ''Please enter a valid due date'', error_href = ''#due-date-day''\<rparr>"

definition notInFuture :: FieldError where
  "notInFuture = \<lparr>error_text = ''Due date must be in the future'', error_href = ''#due-date-day''\<rparr>"

definition inThePast :: FieldError where
  "inThePast = \<lparr>error_text = ''Due date cannot be in the past'', error_href = ''#due-date-day''\<rparr>"

text \<open>The errors of a list that are anchored to the day field: the outcome of the
  due-date rules.\<close>

definition dueDateErrors :: "FieldError list \<Rightarrow> FieldError list" where
  "dueDateErrors errs = filter (\<lambda>e. error_href e = ''#due-date-day'') errs"

text \<open>A host for the examples: UTC, the clock at 2 November 2025, 12:00.\<close>

definition utcHost :: host where
  "utcHost = \<lparr>tza = 0, now = 1762084800000, toLocaleDateString = (\<lambda>d. [])\<rparr>"

text \<open>The form of the route test "should handle incomplete due date": no year.\<close>

definition formWithoutYear :: TaskFormData where
  "formWithoutYear =
     \<lparr>title = Some (js ''New Task''), description = Some (js ''Task description''),
      status = Some (js ''TODO''), due_date_day = Some (js ''15''),
      due_date_month = Some (js ''12''), due_date_year = None\<rparr>"

text \<open>A cancelled task that was due on 31 December 2024, 10:00 UTC.\<close>

definition cancelledTask :: Task where
  "cancelledTask =
     \<lparr>task_id = 1, task_title = js ''Test Task'', task_description = js ''Test Description'',
      task_status = CANCELLED, dueDate = Some (Some 1735639200000),
      createdAt = Some 1704103200000, updatedAt = Some 1704103200000\<rparr>"

text \<open>A submission whose day field is one space and whose month and year are empty,
  and the same values in the inputs of the form.\<close>

definition blankDayForm :: TaskFormData where
  "blankDayForm =
     \<lparr>title = Some (js ''New Task''), description = Some (js ''Task description''),
      status = Some (js ''TODO''), due_date_day = Some (js '' ''),
      due_date_month = Some [], due_date_year = Some []\<rparr>"

definition blankDayInputs :: TaskFormElements where
  "blankDayInputs =
     \<lparr>titleInput = Some (js ''New Task''), descriptionInput = Some (js ''Task description''),
      dayInput = Some (js '' ''), monthInput = Some [], yearInput = Some []\<rparr>"

text \<open>
  A host whose clock is not before 2 January 2020, 00:00 UTC, and at least a day before
  the end of the range of time values, and whose zone is at most a day from UTC.
\<close>

definition plausibleHost :: "host \<Rightarrow> bool" where
  "plausibleHost h \<longleftrightarrow>
     1577923200000 \<le> now h \<and> now h + msPerDay \<le> 8640000000000000 \<and> \<bar>tza h\<bar> \<le> msPerDay"

text \<open>A due date of 15 June 1999, and one of 30 February 2030.\<close>

definition form1999 :: TaskFormData where
  "form1999 =
     \<lparr>title = Some (js ''New Task''), description = Some (js ''Task description''),
      status = Some (js ''TODO''), due_date_day = Some (js ''15''),
      due_date_month = Some (js ''6''), due_date_year = Some (js ''1999'')\<rparr>"

definition inputs1999 :: TaskFormElements where
  "inputs1999 =
     \<lparr>titleInput = Some (js ''New Task''), descriptionInput = Some (js ''Task description''),
      dayInput = Some (js ''15''), monthInput = Some (js ''6''), yearInput = Some (js ''1999'')\<rparr>"

definition formFeb30 :: TaskFormData where
  "formFeb30 =
     \<lparr>title = Some (js ''New Task''), description = Some (js ''Task description''),
      status = Some (js ''TODO''), due_date_day = Some (js ''30''),
      due_date_month = Some (js ''2''), due_date_year = Some (js ''2030'')\<rparr>"

definition inputsFeb30 :: TaskFormElements where
  "inputsFeb30 =
     \<lparr>titleInput = Some (js ''New Task''), descriptionInput = Some (js ''Task description''),
      dayInput = Some (js ''30''), monthInput = Some (js ''2''), yearInput = Some (js ''2030'')\<rparr>"

text \<open>The date of the clock of \<open>utcHost\<close>, 2 November 2025, as a due date, and
  the day after it.\<close>

definition formToday :: TaskFormData where
  "formToday =
     \<lparr>title = Some (js ''New Task''), description = Some (js ''Task description''),
      status = Some (js ''TODO''), due_date_day = Some (js ''2''),
      due_date_month = Some (js ''11''), due_date_year = Some (js ''2025'')\<rparr>"

definition inputsToday :: TaskFormElements where
  "inputsToday =
     \<lparr>titleInput = Some (js ''New Task''), descriptionInput = Some (js ''Task description''),
      dayInput = Some (js ''2''), monthInput = Some (js ''11''), yearInput = Some (js ''2025'')\<rparr>"

definition formTomorrow :: TaskFormData where
  "formTomorrow = formToday\<lparr>due_date_day := Some (js ''3'')\<rparr>"

definition inputsTomorrow :: TaskFormElements where
  "inputsTomorrow = inputsToday\<lparr>dayInput := Some (js ''3'')\<rparr>"

text \<open>A due date with day 32, month 13 and year 1999.\<close>

definition formBadRange :: TaskFormData where
  "formBadRange =
     \<lparr>title = Some (js ''New Task''), description = Some (js ''Task description''),
      status = Some (js ''TODO''), due_date_day = Some (js ''32''),
      due_date_month = Some (js ''13''), due_date_year = Some (js ''1999'')\<rparr>"

definition inputsBadRange :: TaskFormElements where
  "inputsBadRange =
     \<lparr>titleInput = Some (js ''New Task''), descriptionInput = Some (js ''Task description''),
      dayInput = Some (js ''32''), monthInput = Some (js ''13''), yearInput = Some (js ''1999'')\<rparr>"

text \<open>A due date of 5 July 2030 (1909440000000 is its midnight in UTC), and a task
  that carries it.\<close>

definition formJuly2030 :: TaskFormData where
  "formJuly2030 =
     \<lparr>title = Some (js ''New Task''), description = Some (js ''Task description''),
      status = Some (js ''TODO''), due_date_day = Some (js ''5''),
      due_date_month = Some (js ''7''), due_date_year = Some (js ''2030'')\<rparr>"

definition taskJuly2030 :: Task where
  "taskJuly2030 =
     \<lparr>task_id = 1, task_title = js ''New Task'', task_description = js ''Task description'',
      task_status = TODO, dueDate = Some (Some 1909440000000),
      createdAt = Some 1762084800000, updatedAt = Some 1762084800000\<rparr>"

text \<open>The \<open>errors\<close> array of the server's validation.\<close>

definition serverErrors :: "host \<Rightarrow> TaskFormData \<Rightarrow> FieldError list" where
  "serverErrors h fd = (case validateTaskForm h fd of Inl e \<Rightarrow> [] | Inr (errs, due) \<Rightarrow> errs)"

text \<open>A submission with a blank title, no description and no year.\<close>

definition allBadForm :: TaskFormData where
  "allBadForm =
     \<lparr>title = Some (js ''  ''), description = None,
      status = Some (js ''TODO''), due_date_day = Some (js ''15''),
      due_date_month = Some (js ''12''), due_date_year = None\<rparr>"

text \<open>The two errors that only the client has.\<close>

definition titleTooShort :: FieldError where
  "titleTooShort =
     \<lparr>error_text = ''Title must be at least 3 characters long'', error_href = ''#title''\<rparr>"

definition descriptionTooShort :: FieldError where
  "descriptionTooShort =
     \<lparr>error_text = ''Description must be at least 10 characters long'',
      error_href = ''#description''\<rparr>"

text \<open>A request with an empty title, an API whose every call fails, and an API
  that answers reads and fails writes.\<close>

definition emptyTitleRequest :: Request where
  "emptyTitleRequest =
     \<lparr>body = \<lparr>title = Some [], description = Some (js ''Task description''),
               status = Some (js ''TODO''), due_date_day = None, due_date_month = None,
               due_date_year = None\<rparr>,
      params_id = js ''1'', csrfToken_call = None\<rparr>"

definition rejectingApi :: backend where
  "rejectingApi =
     \<lparr>axios_post = (\<lambda>p. Rejected), axios_put = (\<lambda>i p. Rejected),
      axios_get = (\<lambda>n i. Rejected)\<rparr>"

definition readOnlyApi :: backend where
  "readOnlyApi =
     \<lparr>axios_post = (\<lambda>p. Rejected), axios_put = (\<lambda>i p. Rejected),
      axios_get = (\<lambda>n i. Resolved cancelledTask)\<rparr>"

text \<open>A submission with a title of two characters and no due date, and the same
  values in the inputs of the form.\<close>

definition shortTitleForm :: TaskFormData where
  "shortTitleForm =
     \<lparr>title = Some (js ''ab''), description = Some (js ''Task description''),
      status = Some (js ''TODO''), due_date_day = Some [], due_date_month = Some [],
      due_date_year = Some []\<rparr>"

definition shortTitleInputs :: TaskFormElements where
  "shortTitleInputs =
     \<lparr>titleInput = Some (js ''ab''), descriptionInput = Some (js ''Task description''),
      dayInput = Some [], monthInput = Some [], yearInput = Some []\<rparr>"

text \<open>The inputs of a form whose day and month are filled in and whose year is empty.\<close>

definition inputsWithoutYear :: TaskFormElements where
  "inputsWithoutYear =
     \<lparr>titleInput = Some (js ''New Task''), descriptionInput = Some (js ''Task description''),
      dayInput = Some (js ''15''), monthInput = Some (js ''12''), yearInput = Some []\<rparr>"

text \<open>A request whose body passes the server's validation (it has no due date), and
  an API that rejects every write and the first GET of a request, and resolves the
  later GETs.\<close>

definition validRequest :: Request where
  "validRequest =
     \<lparr>body = \<lparr>title = Some (js ''New Task''), description = Some (js ''Task description''),
               status = Some (js ''TODO''), due_date_day = None, due_date_month = None,
               due_date_year = None\<rparr>,
      params_id = js ''1'', csrfToken_call = None\<rparr>"

definition flakyApi :: backend where
  "flakyApi =
     \<lparr>axios_post = (\<lambda>p. Rejected), axios_put = (\<lambda>i p. Rejected),
      axios_get = (\<lambda>n i. if n = 0 then Rejected else Resolved cancelledTask)\<rparr>"

text \<open>A host in UTC whose clock stands at 1 January 1970, 00:00; a due date of
  1 January with the year written \<open>71\<close>; and a task that carries 1 January 1971
  (31536000000 is its midnight in UTC).\<close>

definition host1970 :: host where
  "host1970 = \<lparr>tza = 0, now = 0, toLocaleDateString = (\<lambda>d. [])\<rparr>"

definition form1971 :: TaskFormData where
  "form1971 =
     \<lparr>title = Some (js ''New Task''), description = Some (js ''Task description''),
      status = Some (js ''TODO''), due_date_day = Some (js ''1''),
      due_date_month = Some (js ''1''), due_date_year = Some (js ''71'')\<rparr>"

definition task1971 :: Task where
  "task1971 =
     \<lparr>task_id = 1, task_title = js ''New Task'', task_description = js ''Task description'',
      task_status = TODO, dueDate = Some (Some 31536000000),
      createdAt = Some 0, updatedAt = Some 0\<rparr>"

text \<open>A submission with a title of two characters, a description of five, and a due
  date of 15 June 2021 (1623715200000 is its midnight in UTC), which \<open>utcHost\<close> has
  behind it; and the same values in the inputs of the form.\<close>

definition formPast2021 :: TaskFormData where
  "formPast2021 =
     \<lparr>title = Some (js ''ab''), description = Some (js ''short''),
      status = Some (js ''TODO''), due_date_day = Some (js ''15''),
      due_date_month = Some (js ''6''), due_date_year = Some (js ''2021'')\<rparr>"

definition inputsPast2021 :: TaskFormElements where
  "inputsPast2021 =
     \<lparr>titleInput = Some (js ''ab''), descriptionInput = Some (js ''short''),
      dayInput = Some (js ''15''), monthInput = Some (js ''6''), yearInput = Some (js ''2021'')\<rparr>"

section \<open>Strings\<close>

lemma dropWhile_all_iff: "(\<forall>c\<in>set (dropWhile P s). P c) \<longleftrightarrow> dropWhile P s = []"
proof
  assume a: "\<forall>c\<in>set (dropWhile P s). P c"
  show "dropWhile P s = []"
  proof (rule ccontr)
    assume n: "dropWhile P s \<noteq> []"
    then have "\<not> P (hd (dropWhile P s))" by (rule hd_dropWhile)
    moreover have "hd (dropWhile P s) \<in> set (dropWhile P s)" using n by simp
    ultimately show False using a by blast
  qed
next
  assume e: "dropWhile P s = []"
  show "\<forall>c\<in>set (dropWhile P s). P c" unfolding e by simp
qed

lemma trim_Nil_iff: "trim s = [] \<longleftrightarrow> (\<forall>c\<in>set s. isWhiteSpace c)"
proof -
  have "trim s = [] \<longleftrightarrow> (\<forall>c\<in>set (dropWhile isWhiteSpace s). isWhiteSpace c)"
    by (simp add: trim_def dropWhile_eq_Nil_conv)
  also have "\<dots> \<longleftrightarrow> dropWhile isWhiteSpace s = []" by (rule dropWhile_all_iff)
  also have "\<dots> \<longleftrightarrow> (\<forall>c\<in>set s. isWhiteSpace c)" by (simp add: dropWhile_eq_Nil_conv)
  finally show ?thesis .
qed

lemma trim_Nil [simp]: "trim [] = []"
  by (simp add: trim_def)

lemma digit_not_ws: "isRadixDigit R c \<Longrightarrow> \<not> isWhiteSpace c"
  by (auto simp: isRadixDigit_def digitValue_def isWhiteSpace_def word_le_nat_alt
        split: if_splits option.splits)

lemma ws_not_mark:
  "isWhiteSpace c \<Longrightarrow> c \<noteq> 0x2B \<and> c \<noteq> 0x2D \<and> c \<noteq> 0x30 \<and> c \<noteq> 0x78 \<and> c \<noteq> 0x58"
  by (auto simp: isWhiteSpace_def)

lemma takeWhile_digits_ws:
  assumes "\<forall>c\<in>set w. isWhiteSpace c"
  shows "takeWhile (isRadixDigit R) (xs @ w) = takeWhile (isRadixDigit R) xs"
proof -
  have e: "takeWhile (isRadixDigit R) w = []"
    using assms digit_not_ws by (cases w) auto
  show ?thesis
  proof (cases "\<forall>x\<in>set xs. isRadixDigit R x")
    case True
    have t: "takeWhile (isRadixDigit R) xs = xs" using True by simp
    show ?thesis unfolding takeWhile_append t using True e by simp
  next
    case False
    then show ?thesis by (auto simp: takeWhile_append)
  qed
qed

lemma hasHexPrefix_ws:
  assumes "\<forall>c\<in>set w. isWhiteSpace c"
  shows "hasHexPrefix (xs @ w) = hasHexPrefix xs"
proof (cases xs)
  case Nil
  then show ?thesis using assms ws_not_mark by (cases w) (auto simp: hasHexPrefix_def)
next
  case (Cons a r)
  show ?thesis
  proof (cases r)
    case Nil
    then show ?thesis using Cons assms ws_not_mark by (cases w) (auto simp: hasHexPrefix_def)
  next
    case (Cons b r')
    then show ?thesis using \<open>xs = a # r\<close> by (simp add: hasHexPrefix_def)
  qed
qed

lemma parseDigits_ws:
  assumes w: "\<forall>c\<in>set w. isWhiteSpace c"
  shows "parseDigits (S @ w) = parseDigits S"
proof -
  have l: "2 \<le> length S" if "hasHexPrefix S" using that by (simp add: hasHexPrefix_def)
  have d: "(if hasHexPrefix S then drop 2 (S @ w) else S @ w) =
           (if hasHexPrefix S then drop 2 S else S) @ w"
    using l by simp
  show ?thesis
    unfolding parseDigits_def hasHexPrefix_ws [OF w] d Let_def takeWhile_digits_ws [OF w] ..
qed

lemma parseInt_append_ws:
  assumes w: "\<forall>c\<in>set w. isWhiteSpace c" and T: "T = [] \<or> \<not> isWhiteSpace (hd T)"
  shows "parseInt (T @ w) = parseInt T"
proof (cases T)
  case Nil
  have e: "dropWhile isWhiteSpace w = []" using w by (simp add: dropWhile_eq_Nil_conv)
  show ?thesis unfolding Nil parseInt_def by (simp add: e)
next
  case (Cons c T')
  then have c: "\<not> isWhiteSpace c" using T by simp
  have d: "dropWhile isWhiteSpace (T @ w) = T @ w" "dropWhile isWhiteSpace T = T"
    using Cons c by simp_all
  have t: "(if T @ w \<noteq> [] \<and> (hd (T @ w) = 0x2B \<or> hd (T @ w) = 0x2D) then tl (T @ w) else T @ w)
         = (if T \<noteq> [] \<and> (hd T = 0x2B \<or> hd T = 0x2D) then tl T else T) @ w"
    using Cons by simp
  have h: "(T @ w \<noteq> [] \<and> hd (T @ w) = 0x2D) = (T \<noteq> [] \<and> hd T = 0x2D)"
    using Cons by simp
  show ?thesis
    unfolding parseInt_def d Let_def t h parseDigits_ws [OF w] ..
qed

lemma trim_decompose:
  "\<exists>w. dropWhile isWhiteSpace s = trim s @ w \<and> (\<forall>c\<in>set w. isWhiteSpace c)"
proof -
  define u where "u = dropWhile isWhiteSpace s"
  have "rev u = takeWhile isWhiteSpace (rev u) @ dropWhile isWhiteSpace (rev u)" by simp
  then have "u = rev (dropWhile isWhiteSpace (rev u)) @ rev (takeWhile isWhiteSpace (rev u))"
    by (metis rev_append rev_rev_ident)
  moreover have "\<forall>c\<in>set (rev (takeWhile isWhiteSpace (rev u))). isWhiteSpace c"
    by (auto dest: set_takeWhileD)
  ultimately show ?thesis unfolding u_def trim_def by blast
qed

lemma trim_no_leading_ws: "trim s = [] \<or> \<not> isWhiteSpace (hd (trim s))"
proof (cases "trim s = []")
  case False
  obtain w where d: "dropWhile isWhiteSpace s = trim s @ w" using trim_decompose by blast
  then have "dropWhile isWhiteSpace s \<noteq> []" using False by simp
  then have "\<not> isWhiteSpace (hd (dropWhile isWhiteSpace s))" by (rule hd_dropWhile)
  then show ?thesis using d False by simp
qed simp

lemma parseInt_dropWhile: "parseInt (dropWhile isWhiteSpace s) = parseInt s"
  by (simp add: parseInt_def)

lemma parseInt_trim: "parseInt (trim s) = parseInt s"
proof -
  obtain w where d: "dropWhile isWhiteSpace s = trim s @ w" and w: "\<forall>c\<in>set w. isWhiteSpace c"
    using trim_decompose by blast
  have "parseInt s = parseInt (trim s @ w)" using d parseInt_dropWhile [of s] by simp
  also have "\<dots> = parseInt (trim s)" by (rule parseInt_append_ws [OF w trim_no_leading_ws])
  finally show ?thesis by simp
qed

lemma parseInt_Some_nonempty: "parseInt s = Some n \<Longrightarrow> s \<noteq> []"
  by (auto simp: parseInt_def parseDigits_def hasHexPrefix_def)

section \<open>The calendar: years\<close>

lemma DayFromYear_alt:
  "DayFromYear y = 365 * (y - 1) + (y - 1) div 4 - (y - 1) div 100 + (y - 1) div 400 - 719162"
proof -
  have "(y - 1) div 4 = (y - 1969 + 492 * 4) div 4" by simp
  also have "\<dots> = 492 + (y - 1969) div 4" by (rule div_mult_self1) simp
  finally have a: "(y - 1969) div 4 = (y - 1) div 4 - 492" by simp
  have "(y - 1) div 100 = (y - 1901 + 19 * 100) div 100" by simp
  also have "\<dots> = 19 + (y - 1901) div 100" by (rule div_mult_self1) simp
  finally have b: "(y - 1901) div 100 = (y - 1) div 100 - 19" by simp
  have "(y - 1) div 400 = (y - 1601 + 4 * 400) div 400" by simp
  also have "\<dots> = 4 + (y - 1601) div 400" by (rule div_mult_self1) simp
  finally have c: "(y - 1601) div 400 = (y - 1) div 400 - 4" by simp
  show ?thesis unfolding DayFromYear_def a b c by simp
qed

lemma DayFromYear_cycles:
  fixes a b c e :: int
  assumes "0 \<le> b" "b \<le> 3" "0 \<le> c" "c \<le> 24" "0 \<le> e" "e \<le> 3"
  shows "DayFromYear (400 * a + 100 * b + 4 * c + e + 1) =
           146097 * a + 36524 * b + 1461 * c + 365 * e - 719162"
proof -
  let ?x = "400 * a + 100 * b + 4 * c + e"
  have d4: "?x div 4 = 100 * a + 25 * b + c"
    by (rule int_div_pos_eq [where r = e]) (use assms in auto)
  have d100: "?x div 100 = 4 * a + b"
    by (rule int_div_pos_eq [where r = "4 * c + e"]) (use assms in auto)
  have d400: "?x div 400 = a"
    by (rule int_div_pos_eq [where r = "100 * b + 4 * c + e"]) (use assms in auto)
  have "DayFromYear (?x + 1) = 365 * ?x + ?x div 4 - ?x div 100 + ?x div 400 - 719162"
    by (simp add: DayFromYear_alt)
  then show ?thesis unfolding d4 d100 d400 by simp
qed

lemma div_step:
  fixes x k :: int
  assumes k: "0 < k"
  shows "x div k = (x - 1) div k + (if x mod k = 0 then 1 else 0)"
proof (cases "x mod k = 0")
  case True
  have e: "k * (x div k) = x" using True mult_div_mod_eq [of k x] by linarith
  have "x - 1 = k * (x div k - 1) + (k - 1)"
    unfolding right_diff_distrib e by simp
  then have "(x - 1) div k = x div k - 1"
    by (rule int_div_pos_eq) (use k in auto)
  with True show ?thesis by simp
next
  case False
  have r: "0 \<le> x mod k" "x mod k < k" using k by simp_all
  have "x - 1 = k * (x div k) + (x mod k - 1)"
    using mult_div_mod_eq [of k x] by linarith
  then have "(x - 1) div k = x div k"
    by (rule int_div_pos_eq) (use r False in auto)
  with False show ?thesis by simp
qed

lemma DaysInYear_sum:
  "DaysInYear y = 365 + (if y mod 4 = 0 then 1 else 0) - (if y mod 100 = 0 then 1 else 0)
                     + (if y mod 400 = 0 then 1 else 0)"
proof -
  have i1: "y mod 4 = 0" if "y mod 100 = 0"
    using that mod_mod_cancel [of 4 100 y] by simp
  have i2: "y mod 100 = 0" if "y mod 400 = 0"
    using that mod_mod_cancel [of 100 400 y] by simp
  show ?thesis
    by (cases "y mod 4 = 0"; cases "y mod 100 = 0"; cases "y mod 400 = 0")
       (use i1 i2 in \<open>simp_all add: DaysInYear_def\<close>)
qed

lemma DayFromYear_next: "DayFromYear (y + 1) = DayFromYear y + DaysInYear y"
proof -
  define s4 :: int where "s4 = (if y mod 4 = 0 then 1 else 0)"
  define s100 :: int where "s100 = (if y mod 100 = 0 then 1 else 0)"
  define s400 :: int where "s400 = (if y mod 400 = 0 then 1 else 0)"
  have q4: "y div 4 = (y - 1) div 4 + s4" unfolding s4_def by (rule div_step) simp
  have q100: "y div 100 = (y - 1) div 100 + s100" unfolding s100_def by (rule div_step) simp
  have q400: "y div 400 = (y - 1) div 400 + s400" unfolding s400_def by (rule div_step) simp
  have d: "DaysInYear y = 365 + s4 - s100 + s400"
    unfolding s4_def s100_def s400_def by (rule DaysInYear_sum)
  have "DayFromYear (y + 1) = 365 * y + y div 4 - y div 100 + y div 400 - 719162"
    by (simp add: DayFromYear_alt)
  also have "\<dots> = DayFromYear y + DaysInYear y"
    unfolding DayFromYear_alt [of y] d q4 q100 q400 by (simp add: algebra_simps)
  finally show ?thesis .
qed

lemma DaysInYear_cases: "DaysInYear y = 365 \<or> DaysInYear y = 366"
  by (simp add: DaysInYear_def)

lemma DayFromYear_mono_step: "DayFromYear y < DayFromYear (y + 1)"
  using DaysInYear_cases [of y] by (auto simp: DayFromYear_next)

lemma DayFromYear_mono: "y \<le> y' \<Longrightarrow> DayFromYear y \<le> DayFromYear y'"
proof (induction "nat (y' - y)" arbitrary: y')
  case 0
  then show ?case by simp
next
  case (Suc n)
  then have "n = nat ((y' - 1) - y)" "y \<le> y' - 1" by linarith+
  then have "DayFromYear y \<le> DayFromYear (y' - 1)" using Suc.hyps(1) by blast
  also have "\<dots> < DayFromYear y'" using DayFromYear_mono_step [of "y' - 1"] by simp
  finally show ?case by simp
qed

lemma DayFromYear_strict: "y < y' \<Longrightarrow> DayFromYear y < DayFromYear y'"
  using DayFromYear_mono [of "y + 1" y'] DayFromYear_mono_step [of y] by linarith

lemma div_bounds:
  fixes x k :: int
  assumes "0 < k"
  shows "k * (x div k) \<le> x" and "x < k * (x div k) + k"
  using assms mult_div_mod_eq [of k x] pos_mod_bound [of k x] pos_mod_sign [of k x]
  by linarith+

lemma YearFromDay_cycles:
  "\<exists>a b c e r.
     YearFromDay d = 400 * a + 100 * b + 4 * c + e + 1 \<and>
     d + 719162 = 146097 * a + 36524 * b + 1461 * c + 365 * e + r \<and>
     0 \<le> b \<and> b \<le> 3 \<and> 0 \<le> c \<and> c \<le> 24 \<and> 0 \<le> e \<and> e \<le> 3 \<and> 0 \<le> r \<and>
     (e < 3 \<longrightarrow> r < 365) \<and> r < 366 \<and> (c = 24 \<and> b < 3 \<and> e = 3 \<longrightarrow> r < 365)"
proof -
  define n where "n = d + 719162"
  define a where "a = n div 146097"
  define r400 where "r400 = n mod 146097"
  define q100 where "q100 = r400 div 36524"
  define b where "b = min q100 3"
  define r100 where "r100 = r400 - b * 36524"
  define c where "c = r100 div 1461"
  define r4 where "r4 = r100 mod 1461"
  define q1 where "q1 = r4 div 365"
  define e where "e = min q1 3"
  define r where "r = r4 - 365 * e"
  have Y: "YearFromDay d = 400 * a + 100 * b + 4 * c + e + 1"
    unfolding YearFromDay_def Let_def a_def b_def c_def e_def q1_def q100_def r4_def
      r100_def r400_def n_def by (rule refl)
  have n: "n = 146097 * a + r400" unfolding a_def r400_def by simp
  have r400: "0 \<le> r400" "r400 < 146097" unfolding r400_def by simp_all
  have q100: "36524 * q100 \<le> r400" "r400 < 36524 * q100 + 36524"
    unfolding q100_def by (rule div_bounds, simp)+
  have b: "0 \<le> b" "b \<le> 3" using q100 r400 unfolding b_def by linarith+
  have r100: "0 \<le> r100" "b < 3 \<Longrightarrow> r100 < 36524" "r100 \<le> 36524"
    using q100 r400 unfolding r100_def b_def by linarith+
  have c1: "1461 * c \<le> r100" "r100 < 1461 * c + 1461"
    unfolding c_def by (rule div_bounds, simp)+
  have c: "0 \<le> c" "c \<le> 24" using c1 r100 by linarith+
  have r4e: "r100 = 1461 * c + r4" unfolding c_def r4_def by simp
  have r4: "0 \<le> r4" "r4 < 1461" unfolding r4_def by simp_all
  have q1: "365 * q1 \<le> r4" "r4 < 365 * q1 + 365"
    unfolding q1_def by (rule div_bounds, simp)+
  have e: "0 \<le> e" "e \<le> 3" using q1 r4 unfolding e_def by linarith+
  have r: "0 \<le> r" "e < 3 \<Longrightarrow> r < 365" "r < 366"
    using q1 r4 unfolding r_def e_def by linarith+
  have r': "r < 365" if "c = 24" "b < 3" "e = 3"
    using that r100(2) r4e unfolding r_def by linarith
  have d: "d + 719162 = 146097 * a + 36524 * b + 1461 * c + 365 * e + r"
    using n r4e unfolding r_def r100_def n_def by linarith
  show ?thesis using Y d b c e r r' by blast
qed

lemma YearFromDay_lower: "DayFromYear (YearFromDay d) \<le> d"
proof -
  obtain a b c e r where
    Y: "YearFromDay d = 400 * a + 100 * b + 4 * c + e + 1" and
    d: "d + 719162 = 146097 * a + 36524 * b + 1461 * c + 365 * e + r" and
    bd: "0 \<le> b" "b \<le> 3" "0 \<le> c" "c \<le> 24" "0 \<le> e" "e \<le> 3" and
    r: "0 \<le> r" "e < 3 \<longrightarrow> r < 365" "r < 366" "c = 24 \<and> b < 3 \<and> e = 3 \<longrightarrow> r < 365"
    using YearFromDay_cycles [of d] by blast
  show ?thesis unfolding Y DayFromYear_cycles [OF bd] using d r(1) by linarith
qed

lemma YearFromDay_upper: "d < DayFromYear (YearFromDay d + 1)"
proof -
  obtain a b c e r where
    Y: "YearFromDay d = 400 * a + 100 * b + 4 * c + e + 1" and
    d: "d + 719162 = 146097 * a + 36524 * b + 1461 * c + 365 * e + r" and
    bd: "0 \<le> b" "b \<le> 3" "0 \<le> c" "c \<le> 24" "0 \<le> e" "e \<le> 3" and
    r: "0 \<le> r" "e < 3 \<longrightarrow> r < 365" "r < 366" "c = 24 \<and> b < 3 \<and> e = 3 \<longrightarrow> r < 365"
    using YearFromDay_cycles [of d] by blast
  consider (e) "e < 3" | (c) "e = 3" "c < 24" | (b) "e = 3" "c = 24" "b < 3"
    | (a) "e = 3" "c = 24" "b = 3"
    using bd by linarith
  then show ?thesis
  proof cases
    case e
    have Y1: "YearFromDay d + 1 = 400 * a + 100 * b + 4 * c + (e + 1) + 1" using Y by simp
    have "DayFromYear (YearFromDay d + 1) =
        146097 * a + 36524 * b + 1461 * c + 365 * (e + 1) - 719162"
      unfolding Y1 by (rule DayFromYear_cycles) (use bd e in auto)
    moreover have "r < 365" using r e by blast
    ultimately show ?thesis using d by simp
  next
    case c
    have Y1: "YearFromDay d + 1 = 400 * a + 100 * b + 4 * (c + 1) + 0 + 1" using Y c by simp
    have "DayFromYear (YearFromDay d + 1) =
        146097 * a + 36524 * b + 1461 * (c + 1) + 365 * 0 - 719162"
      unfolding Y1 by (rule DayFromYear_cycles) (use bd c in auto)
    then show ?thesis using d r(3) c by simp
  next
    case b
    have Y1: "YearFromDay d + 1 = 400 * a + 100 * (b + 1) + 4 * 0 + 0 + 1" using Y b by simp
    have "DayFromYear (YearFromDay d + 1) =
        146097 * a + 36524 * (b + 1) + 1461 * 0 + 365 * 0 - 719162"
      unfolding Y1 by (rule DayFromYear_cycles) (use bd b in auto)
    moreover have "r < 365" using r b by blast
    ultimately show ?thesis using d b by simp
  next
    case a
    have Y1: "YearFromDay d + 1 = 400 * (a + 1) + 100 * 0 + 4 * 0 + 0 + 1" using Y a by simp
    have "DayFromYear (YearFromDay d + 1) =
        146097 * (a + 1) + 36524 * 0 + 1461 * 0 + 365 * 0 - 719162"
      unfolding Y1 by (rule DayFromYear_cycles) auto
    then show ?thesis using d r(3) a by simp
  qed
qed

lemma YearFromDay_unique:
  assumes "DayFromYear y \<le> d" "d < DayFromYear (y + 1)"
  shows "YearFromDay d = y"
proof (rule ccontr)
  assume ne: "YearFromDay d \<noteq> y"
  then consider "YearFromDay d < y" | "y < YearFromDay d" by linarith
  then show False
  proof cases
    case 1
    then have "DayFromYear (YearFromDay d + 1) \<le> DayFromYear y"
      by (intro DayFromYear_mono) simp
    with YearFromDay_upper [of d] assms(1) show False by linarith
  next
    case 2
    then have "DayFromYear (y + 1) \<le> DayFromYear (YearFromDay d)"
      by (intro DayFromYear_mono) simp
    with YearFromDay_lower [of d] assms(2) show False by linarith
  qed
qed

lemma YearFromDay_mono: "d \<le> d' \<Longrightarrow> YearFromDay d \<le> YearFromDay d'"
proof (rule ccontr)
  assume le: "d \<le> d'" and "\<not> YearFromDay d \<le> YearFromDay d'"
  then have "YearFromDay d' + 1 \<le> YearFromDay d" by simp
  then have "DayFromYear (YearFromDay d' + 1) \<le> DayFromYear (YearFromDay d)"
    by (rule DayFromYear_mono)
  with YearFromDay_upper [of d'] YearFromDay_lower [of d] le show False by linarith
qed

section \<open>The calendar: months and days\<close>

lemma DayWithinYear_bounds:
  "0 \<le> DayWithinYear t" "DayWithinYear t < DaysInYear (YearFromTime t)"
  using YearFromDay_lower [of "Day t"] YearFromDay_upper [of "Day t"]
  by (simp_all add: DayWithinYear_def YearFromTime_def DayFromYear_next)

lemma InLeapYear_cases: "InLeapYear t = 0 \<or> InLeapYear t = 1"
  by (simp add: InLeapYear_def)

lemma InLeapYear_range: "0 \<le> InLeapYear t" "InLeapYear t \<le> 1"
  by (simp_all add: InLeapYear_def)

lemma DayWithinYear_leap: "DayWithinYear t < 365 + InLeapYear t"
  using DayWithinYear_bounds(2) [of t] DaysInYear_cases [of "YearFromTime t"]
  by (auto simp: InLeapYear_def)

lemma MonthFromTime_range: "0 \<le> MonthFromTime t" "MonthFromTime t \<le> 11"
  by (simp_all add: MonthFromTime_def Let_def)

lemma month_date_table:
  fixes d l :: int
  defines "m \<equiv> (if d < 31 then 0
         else if d < 59 + l then 1
         else if d < 90 + l then 2
         else if d < 120 + l then 3
         else if d < 151 + l then 4
         else if d < 181 + l then 5
         else if d < 212 + l then 6
         else if d < 243 + l then 7
         else if d < 273 + l then 8
         else if d < 304 + l then 9
         else if d < 334 + l then 10
         else (11::int))"
  shows "DaysBeforeMonth l m + (if m = 0 then d + 1
         else if m = 1 then d - 30
         else if m = 2 then d - 58 - l
         else if m = 3 then d - 89 - l
         else if m = 4 then d - 119 - l
         else if m = 5 then d - 150 - l
         else if m = 6 then d - 180 - l
         else if m = 7 then d - 211 - l
         else if m = 8 then d - 242 - l
         else if m = 9 then d - 272 - l
         else if m = 10 then d - 303 - l
         else d - 333 - l) - 1 = d"
  unfolding m_def DaysBeforeMonth_def by simp

lemma DaysBeforeMonth_civil:
  "DaysBeforeMonth (InLeapYear t) (MonthFromTime t) + DateFromTime t - 1 = DayWithinYear t"
  using month_date_table [where d = "DayWithinYear t" and l = "InLeapYear t"]
  unfolding DateFromTime_def MonthFromTime_def Let_def by simp

lemma MakeDay_civil: "MakeDay (YearFromTime t) (MonthFromTime t) (DateFromTime t) = Day t"
proof -
  have m: "MonthFromTime t div 12 = 0" "MonthFromTime t mod 12 = MonthFromTime t"
    using MonthFromTime_range [of t] by simp_all
  have "MakeDay (YearFromTime t) (MonthFromTime t) (DateFromTime t) =
        DayFromYear (YearFromTime t) + DaysBeforeMonth (InLeapYear t) (MonthFromTime t)
          + DateFromTime t - 1"
    by (simp add: MakeDay_def Let_def m InLeapYear_def)
  also have "\<dots> = DayFromYear (YearFromTime t) + DayWithinYear t"
    using DaysBeforeMonth_civil [of t] by simp
  also have "\<dots> = Day t" by (simp add: DayWithinYear_def)
  finally show ?thesis .
qed


lemma DateFromTime_range: "1 \<le> DateFromTime t" "DateFromTime t \<le> 31"
proof -
  define d where "d = DayWithinYear t"
  define l where "l = InLeapYear t"
  have d: "0 \<le> d" "d < 365 + l" and l: "0 \<le> l" "l \<le> 1"
    unfolding d_def l_def
    using DayWithinYear_bounds(1) DayWithinYear_leap InLeapYear_range by blast+
  have D: "DateFromTime t =
     (let m = (if d < 31 then 0
         else if d < 59 + l then 1
         else if d < 90 + l then 2
         else if d < 120 + l then 3
         else if d < 151 + l then 4
         else if d < 181 + l then 5
         else if d < 212 + l then 6
         else if d < 243 + l then 7
         else if d < 273 + l then 8
         else if d < 304 + l then 9
         else if d < 334 + l then 10
         else (11::int))
      in if m = 0 then d + 1
         else if m = 1 then d - 30
         else if m = 2 then d - 58 - l
         else if m = 3 then d - 89 - l
         else if m = 4 then d - 119 - l
         else if m = 5 then d - 150 - l
         else if m = 6 then d - 180 - l
         else if m = 7 then d - 211 - l
         else if m = 8 then d - 242 - l
         else if m = 9 then d - 272 - l
         else if m = 10 then d - 303 - l
         else d - 333 - l)"
    unfolding DateFromTime_def MonthFromTime_def Let_def d_def l_def by simp
  show "1 \<le> DateFromTime t" unfolding D Let_def using d l by (simp split: if_splits)
  show "DateFromTime t \<le> 31" unfolding D Let_def using d l by (simp split: if_splits)
qed

lemma February_short: "MonthFromTime t = 1 \<Longrightarrow> DateFromTime t \<le> 29"
  using InLeapYear_range [of t]
  by (simp add: DateFromTime_def MonthFromTime_def Let_def split: if_splits)

lemma thirty_day_months:
  "MonthFromTime t \<in> {3, 5, 8, 10} \<Longrightarrow> DateFromTime t \<le> 30"
  using InLeapYear_range [of t]
  by (simp add: DateFromTime_def MonthFromTime_def Let_def split: if_splits)

lemma DaysBeforeMonth_bounds:
  assumes "0 \<le> mn" "mn \<le> 11" "l = 0 \<or> l = 1"
  shows "0 \<le> DaysBeforeMonth l mn" "DaysBeforeMonth l mn \<le> 334 + l"
  using assms by (auto simp: DaysBeforeMonth_def)

lemma YearFromDay_MakeDay:
  assumes m: "0 \<le> mn" "mn \<le> 11" and d: "1 \<le> dt" "dt \<le> 31"
  shows "YearFromDay (MakeDay y mn dt) = y"
proof -
  define l :: int where "l = (if DaysInYear y = 366 then 1 else 0)"
  have l: "l = 0 \<or> l = 1" and ly: "DaysInYear y = 365 + l"
    using DaysInYear_cases [of y] by (auto simp: l_def)
  have mm: "mn div 12 = 0" "mn mod 12 = mn" using m by simp_all
  have M: "MakeDay y mn dt = DayFromYear y + DaysBeforeMonth l mn + dt - 1"
    by (simp add: MakeDay_def Let_def mm l_def)
  have b: "0 \<le> DaysBeforeMonth l mn" "DaysBeforeMonth l mn \<le> 334 + l"
    using DaysBeforeMonth_bounds [OF m l] by simp_all
  show ?thesis
  proof (rule YearFromDay_unique)
    show "DayFromYear y \<le> MakeDay y mn dt" unfolding M using b d by linarith
    show "MakeDay y mn dt < DayFromYear (y + 1)"
      unfolding M DayFromYear_next ly using b d by linarith
  qed
qed

lemma Day_mult [simp]: "Day (n * msPerDay) = n"
  by (simp add: Day_def msPerDay_def)

lemma Day_floor: "Day t * msPerDay \<le> t" "t < Day t * msPerDay + msPerDay"
  using div_bounds [of msPerDay t] by (simp_all add: Day_def msPerDay_def mult.commute)

lemma Day_mono: "t \<le> t' \<Longrightarrow> Day t \<le> Day t'"
  by (simp add: Day_def msPerDay_def zdiv_mono1)

lemma Day_add_msPerDay: "Day (t + msPerDay) = Day t + 1"
  by (simp add: Day_def msPerDay_def)

lemma civil_Day_cong:
  assumes "Day t = Day t'"
  shows "YearFromTime t = YearFromTime t'" "MonthFromTime t = MonthFromTime t'"
    "DateFromTime t = DateFromTime t'"
proof -
  show Y: "YearFromTime t = YearFromTime t'" using assms by (simp add: YearFromTime_def)
  have L: "InLeapYear t = InLeapYear t'" by (simp add: InLeapYear_def Y)
  have W: "DayWithinYear t = DayWithinYear t'" by (simp add: DayWithinYear_def Y assms)
  show M: "MonthFromTime t = MonthFromTime t'" by (simp add: MonthFromTime_def L W)
  show "DateFromTime t = DateFromTime t'" by (simp add: DateFromTime_def L W M)
qed

section \<open>Dates and the two validators\<close>

lemma LocalTime_UTC [simp]: "LocalTime h (UTC h x) = x"
  by (simp add: LocalTime_def UTC_def)

lemma newDate_Some:
  assumes "newDate h (Some y) (Some m) (Some dt) = Some t"
  shows "LocalTime h t = MakeDay (MakeFullYear y) m dt * msPerDay"
  using assms
  by (auto simp: newDate_def TimeClip_def MakeDate_def MakeTime_def split: if_splits)

lemma newDate_NaN:
  "newDate h None m dt = None" "newDate h y None dt = None" "newDate h y m None = None"
  by (auto simp: newDate_def split: option.splits)

text \<open>The error list after the two required-field checks.\<close>

lemma validateTaskForm_eq:
  "validateTaskForm h fd =
     (let pre = (if \<not> truthy (map_option trim (title fd)) then [titleRequired] else []) @
                (if \<not> truthy (map_option trim (description fd)) then [descriptionRequired] else []);
          dueDay = due_date_day fd; dueMonth = due_date_month fd; dueYear = due_date_year fd
      in if truthy dueDay \<or> truthy dueMonth \<or> truthy dueYear then
           if \<not> truthy dueDay \<or> \<not> truthy dueMonth \<or> \<not> truthy dueYear then
             Inr (pre @ [incompleteDate], None)
           else
             let dateObj = newDate h (parseInt_opt dueYear)
                             (num_minus (parseInt_opt dueMonth) 1) (parseInt_opt dueDay)
             in if num_neq (getDate h dateObj) (parseInt_opt dueDay) \<or>
                   num_neq (getMonth h dateObj) (num_minus (parseInt_opt dueMonth) 1) then
                  Inr (pre @ [invalidDate], None)
                else if num_le dateObj (setHours0 h (Some (now h))) then
                  Inr (pre @ [notInFuture], None)
                else
                  (case toISOString dateObj of
                     Inl e \<Rightarrow> Inl e
                   | Inr s \<Rightarrow> Inr (pre, Some s))
         else Inr (pre, None))"
  by (simp add: validateTaskForm_def Let_def push_def titleRequired_def descriptionRequired_def
        incompleteDate_def invalidDate_def notInFuture_def split: sum.splits)

lemma dueDateErrors_pre [simp]:
  "dueDateErrors ((if a then [titleRequired] else []) @ (if b then [descriptionRequired] else [])) = []"
  by (simp add: dueDateErrors_def titleRequired_def descriptionRequired_def)

lemma dueDateErrors_append [simp]: "dueDateErrors (xs @ ys) = dueDateErrors xs @ dueDateErrors ys"
  by (simp add: dueDateErrors_def)

lemma dueDateErrors_single [simp]:
  "dueDateErrors [incompleteDate] = [incompleteDate]"
  "dueDateErrors [invalidDate] = [invalidDate]"
  "dueDateErrors [notInFuture] = [notInFuture]"
  "dueDateErrors [inThePast] = [inThePast]"
  "dueDateErrors [titleRequired] = []"
  "dueDateErrors [descriptionRequired] = []"
  "dueDateErrors [] = []"
  by (simp_all add: dueDateErrors_def incompleteDate_def invalidDate_def notInFuture_def
        inThePast_def titleRequired_def descriptionRequired_def)

text \<open>The server's answer when the constructed date does not round-trip.\<close>

lemma server_invalid:
  assumes t: "truthy (due_date_day fd)" "truthy (due_date_month fd)" "truthy (due_date_year fd)"
      and bad: "num_neq (getDate h (newDate h (parseInt_opt (due_date_year fd))
                    (num_minus (parseInt_opt (due_date_month fd)) 1) (parseInt_opt (due_date_day fd))))
                  (parseInt_opt (due_date_day fd)) \<or>
                num_neq (getMonth h (newDate h (parseInt_opt (due_date_year fd))
                    (num_minus (parseInt_opt (due_date_month fd)) 1) (parseInt_opt (due_date_day fd))))
                  (num_minus (parseInt_opt (due_date_month fd)) 1)"
  shows "\<exists>errs. validateTaskForm h fd = Inr (errs, None) \<and> dueDateErrors errs = [invalidDate]"
  unfolding validateTaskForm_eq Let_def using t bad by simp

lemma client_add:
  "\<exists>errs. addError st t a = (True, errs) \<and>
     dueDateErrors errs = dueDateErrors (snd st) @ dueDateErrors [\<lparr>error_text = t, error_href = a\<rparr>]"
  by (simp add: addError_def push_def)

text \<open>No date of February has day 30 or 31 and no date of a 30-day month has day 31:
  such a triple never round-trips.\<close>

lemma rollover_mismatch:
  assumes "(m = 2 \<and> 30 \<le> d) \<or> (m \<in> {4, 6, 9, 11} \<and> 31 \<le> d)"
  shows "num_neq (getDate h (newDate h y (Some (m - 1)) (Some d))) (Some d) \<or>
         num_neq (getMonth h (newDate h y (Some (m - 1)) (Some d))) (Some (m - 1))"
proof (cases "newDate h y (Some (m - 1)) (Some d)")
  case None
  then show ?thesis by (simp add: getDate_def num_neq_def)
next
  case (Some t)
  show ?thesis
  proof (cases "MonthFromTime (LocalTime h t) = m - 1")
    case True
    have "DateFromTime (LocalTime h t) < d"
      using assms True February_short [of "LocalTime h t"] thirty_day_months [of "LocalTime h t"]
      by auto
    then show ?thesis unfolding Some by (simp add: getDate_def num_neq_def)
  next
    case False
    then show ?thesis unfolding Some by (simp add: getMonth_def num_neq_def)
  qed
qed

lemma client_prefix [simp]:
  "dueDateErrors (snd (clientDescription form (clientTitle form (False, [])))) = []"
  by (simp add: clientDescription_def clientTitle_def Let_def addError_def push_def
        dueDateErrors_def split: option.splits)

lemma clientDueDate_parsed:
  assumes f: "dayInput form = Some ds" "monthInput form = Some ms" "yearInput form = Some ys"
      and n: "trim ds \<noteq> []" "trim ms \<noteq> []" "trim ys \<noteq> []"
  shows "clientDueDate h form st =
     (if isNaN (parseInt ds) \<or> isNaN (parseInt ms) \<or> isNaN (parseInt ys) \<or>
         num_lt (parseInt ds) (Some 1) \<or> num_gt (parseInt ds) (Some 31) \<or>
         num_lt (parseInt ms) (Some 1) \<or> num_gt (parseInt ms) (Some 12) \<or>
         num_lt (parseInt ys) (Some 2020) then
        addError st ''Please enter a valid due date'' ''#due-date-day''
      else if num_neq (getDate h (newDate h (parseInt ys) (num_minus (parseInt ms) 1) (parseInt ds)))
                (parseInt ds) \<or>
              num_neq (getMonth h (newDate h (parseInt ys) (num_minus (parseInt ms) 1) (parseInt ds)))
                (num_minus (parseInt ms) 1) then
        addError st ''Please enter a valid due date'' ''#due-date-day''
      else if num_lt (newDate h (parseInt ys) (num_minus (parseInt ms) 1) (parseInt ds))
                (setHours0 h (Some (now h))) then
        addError st ''Due date cannot be in the past'' ''#due-date-day''
      else st)"
  unfolding clientDueDate_def f Let_def parseInt_trim using n by simp

lemma client_invalid:
  assumes f: "dayInput form = Some ds" "monthInput form = Some ms" "yearInput form = Some ys"
      and n: "trim ds \<noteq> []" "trim ms \<noteq> []" "trim ys \<noteq> []"
      and bad: "(isNaN (parseInt ds) \<or> isNaN (parseInt ms) \<or> isNaN (parseInt ys) \<or>
                num_lt (parseInt ds) (Some 1) \<or> num_gt (parseInt ds) (Some 31) \<or>
                num_lt (parseInt ms) (Some 1) \<or> num_gt (parseInt ms) (Some 12) \<or>
                num_lt (parseInt ys) (Some 2020)) \<or>
                (num_neq (getDate h (newDate h (parseInt ys) (num_minus (parseInt ms) 1) (parseInt ds)))
                  (parseInt ds) \<or>
                num_neq (getMonth h (newDate h (parseInt ys) (num_minus (parseInt ms) 1) (parseInt ds)))
                  (num_minus (parseInt ms) 1))"
  shows "fst (taskFormSubmit h form) \<and> dueDateErrors (snd (taskFormSubmit h form)) = [invalidDate]"
proof -
  define st where "st = clientDescription form (clientTitle form (False, []))"
  have e: "taskFormSubmit h form = addError st ''Please enter a valid due date'' ''#due-date-day''"
    unfolding taskFormSubmit_def st_def [symmetric] clientDueDate_parsed [OF f n]
    using bad by presburger
  have p: "dueDateErrors (snd st) = []" unfolding st_def by (rule client_prefix)
  show ?thesis
    unfolding e addError_def push_def invalidDate_def [symmetric] by (simp add: p)
qed

lemma getDate_range:
  "getDate h d = Some x \<Longrightarrow> 1 \<le> x \<and> x \<le> 31"
  using DateFromTime_range by (auto simp: getDate_def)

lemma getMonth_range:
  "getMonth h d = Some x \<Longrightarrow> 0 \<le> x \<and> x \<le> 11"
  using MonthFromTime_range by (auto simp: getMonth_def)

lemma range_mismatch:
  assumes "d < 1 \<or> 31 < d \<or> m < 1 \<or> 12 < m"
  shows "num_neq (getDate h D) (Some d) \<or> num_neq (getMonth h D) (Some (m - 1))"
proof (cases D)
  case None
  then show ?thesis by (simp add: getDate_def num_neq_def)
next
  case (Some t)
  have "1 \<le> DateFromTime (LocalTime h t)" "DateFromTime (LocalTime h t) \<le> 31"
    "0 \<le> MonthFromTime (LocalTime h t)" "MonthFromTime (LocalTime h t) \<le> 11"
    by (rule DateFromTime_range MonthFromTime_range)+
  then show ?thesis using assms unfolding Some by (auto simp: getDate_def getMonth_def num_neq_def)
qed

lemma NaN_mismatch:
  assumes "y = None \<or> m = None \<or> d = None"
  shows "num_neq (getDate h (newDate h y (num_minus m 1) d)) d"
proof -
  have "newDate h y (num_minus m 1) d = None"
    using assms by (auto simp: newDate_def num_minus_def split: option.splits)
  then show ?thesis by (simp add: getDate_def num_neq_def)
qed

lemma YearFromDay_2020: "YearFromDay 18262 = 2020"
  by code_simp

lemma plausible_local:
  assumes "plausibleHost h" and k: "0 \<le> k" "k \<le> 1"
  defines "X \<equiv> LocalTime h (now h) + k * msPerDay"
  shows "2020 \<le> YearFromTime X"
    and "Day X = Day (LocalTime h (now h)) + k"
    and "\<bar>Day X * msPerDay - tza h\<bar> \<le> 8640000000000000"
    and "setHours0 h (Some (now h)) = Some (Day (LocalTime h (now h)) * msPerDay - tza h)"
proof -
  define L where "L = LocalTime h (now h)"
  have h: "1577923200000 \<le> now h" "now h + msPerDay \<le> 8640000000000000"
    "- msPerDay \<le> tza h" "tza h \<le> msPerDay"
    using assms(1) by (auto simp: plausibleHost_def)
  have L: "1577836800000 \<le> L" using h by (simp add: L_def LocalTime_def msPerDay_def)
  have f: "Day L * msPerDay \<le> L" "L < Day L * msPerDay + msPerDay" by (rule Day_floor)+
  have "Day 1577836800000 \<le> Day L" using L by (rule Day_mono)
  then have D: "18262 \<le> Day L" by (simp add: Day_def msPerDay_def)
  have k01: "k = 0 \<or> k = 1" using k by linarith
  show DX: "Day X = Day (LocalTime h (now h)) + k"
    using k01 Day_add_msPerDay [of L] unfolding X_def L_def [symmetric] by auto
  have "YearFromDay 18262 \<le> YearFromDay (Day X)"
    by (rule YearFromDay_mono) (use D DX k in \<open>simp add: L_def\<close>)
  then show "2020 \<le> YearFromTime X" by (simp add: YearFromDay_2020 YearFromTime_def)
  have b0: "0 \<le> Day L * msPerDay - tza h" "Day L * msPerDay - tza h \<le> now h"
    using f h by (simp_all add: L_def LocalTime_def msPerDay_def)
  show "\<bar>Day X * msPerDay - tza h\<bar> \<le> 8640000000000000"
    unfolding DX L_def [symmetric] using b0 h(2) k
    by (cases "k = 0") (auto simp: algebra_simps msPerDay_def)
  show "setHours0 h (Some (now h)) = Some (Day (LocalTime h (now h)) * msPerDay - tza h)"
    unfolding L_def [symmetric] using b0 h(2)
    by (simp add: setHours0_def TimeClip_def UTC_def MakeDate_def MakeTime_def L_def msPerDay_def)
qed

lemma newDate_civil:
  assumes "100 \<le> YearFromTime X" and "\<bar>Day X * msPerDay - tza h\<bar> \<le> 8640000000000000"
  shows "newDate h (Some (YearFromTime X)) (Some (MonthFromTime X)) (Some (DateFromTime X)) =
           Some (Day X * msPerDay - tza h)"
  using assms
  by (simp add: newDate_def MakeFullYear_def MakeDay_civil TimeClip_def UTC_def MakeDate_def
        MakeTime_def)

lemma getters_midnight:
  "getDate h (Some (Day X * msPerDay - tza h)) = Some (DateFromTime X)"
  "getMonth h (Some (Day X * msPerDay - tza h)) = Some (MonthFromTime X)"
  "getFullYear h (Some (Day X * msPerDay - tza h)) = Some (YearFromTime X)"
  using civil_Day_cong [of "Day X * msPerDay" X]
  by (simp_all add: getDate_def getMonth_def getFullYear_def LocalTime_def)

text \<open>The two validators on a triple that parses to the local date of today
  (\<open>k = 0\<close>) or of tomorrow (\<open>k = 1\<close>).\<close>

lemma near_date_checks:
  assumes host: "plausibleHost h" and k: "k = 0 \<or> k = 1"
      and parse: "parseInt ds = Some (DateFromTime (LocalTime h (now h) + k * msPerDay))"
                 "parseInt ms = Some (MonthFromTime (LocalTime h (now h) + k * msPerDay) + 1)"
                 "parseInt ys = Some (YearFromTime (LocalTime h (now h) + k * msPerDay))"
  defines "t \<equiv> Day (LocalTime h (now h) + k * msPerDay) * msPerDay - tza h"
  shows "newDate h (parseInt ys) (num_minus (parseInt ms) 1) (parseInt ds) = Some t"
    and "\<not> num_neq (getDate h (Some t)) (parseInt ds)"
    and "\<not> num_neq (getMonth h (Some t)) (num_minus (parseInt ms) 1)"
    and "num_le (Some t) (setHours0 h (Some (now h))) = (k = 0)"
    and "\<not> num_lt (Some t) (setHours0 h (Some (now h)))"
    and "\<not> num_lt (parseInt ys) (Some 2020)"
proof -
  define X where "X = LocalTime h (now h) + k * msPerDay"
  define L where "L = LocalTime h (now h)"
  have k': "0 \<le> k" "k \<le> 1" using k by auto
  note pl = plausible_local [OF host k', folded X_def L_def]
  have Y: "100 \<le> YearFromTime X" using pl(1) by simp
  have p: "parseInt ds = Some (DateFromTime X)" "parseInt ms = Some (MonthFromTime X + 1)"
    "parseInt ys = Some (YearFromTime X)" using parse by (simp_all add: X_def)
  have t: "t = Day X * msPerDay - tza h" by (simp add: t_def X_def)
  show "newDate h (parseInt ys) (num_minus (parseInt ms) 1) (parseInt ds) = Some t"
    unfolding p num_minus_def t using newDate_civil [OF Y pl(3)] by simp
  show "\<not> num_neq (getDate h (Some t)) (parseInt ds)"
    "\<not> num_neq (getMonth h (Some t)) (num_minus (parseInt ms) 1)"
    unfolding t by (simp_all add: getters_midnight p num_neq_def num_minus_def)
  show "num_le (Some t) (setHours0 h (Some (now h))) = (k = 0)"
    "\<not> num_lt (Some t) (setHours0 h (Some (now h)))"
    unfolding t pl(4) pl(2) using k by (auto simp: num_le_def num_lt_def msPerDay_def)
  show "\<not> num_lt (parseInt ys) (Some 2020)" using pl(1) by (simp add: p num_lt_def)
qed

lemma near_date_nonempty:
  assumes "parseInt ds = Some d" "parseInt ms = Some m" "parseInt ys = Some y"
  shows "ds \<noteq> []" "ms \<noteq> []" "ys \<noteq> []" "trim ds \<noteq> []" "trim ms \<noteq> []" "trim ys \<noteq> []"
  using assms parseInt_Some_nonempty [of ds] parseInt_Some_nonempty [of ms]
    parseInt_Some_nonempty [of ys] parseInt_Some_nonempty [of "trim ds"]
    parseInt_Some_nonempty [of "trim ms"] parseInt_Some_nonempty [of "trim ys"]
  by (auto simp: parseInt_trim)

lemma near_date_server:
  assumes host: "plausibleHost h" and k: "k = 0 \<or> k = 1"
      and parse: "parseInt ds = Some (DateFromTime (LocalTime h (now h) + k * msPerDay))"
                 "parseInt ms = Some (MonthFromTime (LocalTime h (now h) + k * msPerDay) + 1)"
                 "parseInt ys = Some (YearFromTime (LocalTime h (now h) + k * msPerDay))"
      and fd: "due_date_day fd = Some ds" "due_date_month fd = Some ms" "due_date_year fd = Some ys"
  shows "validateTaskForm h fd =
      (let pre = (if \<not> truthy (map_option trim (title fd)) then [titleRequired] else []) @
                 (if \<not> truthy (map_option trim (description fd)) then [descriptionRequired] else [])
       in if k = 0 then Inr (pre @ [notInFuture], None)
          else Inr (pre, Some (Some (Day (LocalTime h (now h) + k * msPerDay) * msPerDay - tza h))))"
proof -
  note c = near_date_checks [OF host k parse]
  note ne = near_date_nonempty [OF parse]
  show ?thesis
    unfolding validateTaskForm_eq Let_def
    using fd ne c(1-4) by (simp add: truthy_def parseInt_opt_def toISOString_def)
qed

lemma near_date_client:
  assumes host: "plausibleHost h" and k: "k = 0 \<or> k = 1"
      and parse: "parseInt ds = Some (DateFromTime (LocalTime h (now h) + k * msPerDay))"
                 "parseInt ms = Some (MonthFromTime (LocalTime h (now h) + k * msPerDay) + 1)"
                 "parseInt ys = Some (YearFromTime (LocalTime h (now h) + k * msPerDay))"
      and form: "dayInput form = Some ds" "monthInput form = Some ms" "yearInput form = Some ys"
  shows "clientDueDate h form st = st"
proof -
  note c = near_date_checks [OF host k parse]
  note ne = near_date_nonempty [OF parse]
  define X where "X = LocalTime h (now h) + k * msPerDay"
  have r: "1 \<le> DateFromTime X" "DateFromTime X \<le> 31" "0 \<le> MonthFromTime X"
    "MonthFromTime X \<le> 11"
    by (rule DateFromTime_range MonthFromTime_range)+
  have rng: "\<not> isNaN (parseInt ds)" "\<not> isNaN (parseInt ms)" "\<not> isNaN (parseInt ys)"
    "\<not> num_lt (parseInt ds) (Some 1)" "\<not> num_gt (parseInt ds) (Some 31)"
    "\<not> num_lt (parseInt ms) (Some 1)" "\<not> num_gt (parseInt ms) (Some 12)"
    using r by (simp_all add: parse X_def [symmetric] isNaN_def num_lt_def num_gt_def)
  show ?thesis
    unfolding clientDueDate_parsed [OF form ne(4-6)] c(1)
    using c(2,3,5,6) rng by simp
qed

lemma utcHost_plausible: "plausibleHost utcHost"
  by (simp add: plausibleHost_def utcHost_def msPerDay_def)

text \<open>The server's validation when the three fields parse and the constructed date
  round-trips: only the comparison with today is left.\<close>

lemma validate_parsed:
  assumes fd: "due_date_day fd = Some ds" "due_date_month fd = Some ms" "due_date_year fd = Some ys"
      and p: "parseInt ds = Some d" "parseInt ms = Some m" "parseInt ys = Some y"
      and nd: "newDate h (Some y) (Some (m - 1)) (Some d) = Some tv"
      and g: "getDate h (Some tv) = Some d" "getMonth h (Some tv) = Some (m - 1)"
      and td: "setHours0 h (Some (now h)) = Some today"
  shows "validateTaskForm h fd =
      (let pre = (if \<not> truthy (map_option trim (title fd)) then [titleRequired] else []) @
                 (if \<not> truthy (map_option trim (description fd)) then [descriptionRequired] else [])
       in if tv \<le> today then Inr (pre @ [notInFuture], None) else Inr (pre, Some (Some tv)))"
proof -
  note ne = near_date_nonempty [OF p]
  show ?thesis
    unfolding validateTaskForm_eq Let_def
    using fd ne(1-3)
    by (simp add: truthy_def parseInt_opt_def p num_minus_def nd g td num_neq_def num_le_def
          toISOString_def)
qed

lemma utcHost_today: "setHours0 utcHost (Some (now utcHost)) = Some 1762041600000"
  by code_simp

lemma example_title_ok:
  "truthy (map_option trim (Some (js ''New Task'')))"
  "truthy (map_option trim (Some (js ''Task description'')))"
  by code_simp+

lemma parse_1999: "parseInt (js ''15'') = Some 15" "parseInt (js ''6'') = Some 6"
  "parseInt (js ''1999'') = Some 1999"
  by code_simp+

lemma date_1999: "newDate utcHost (Some 1999) (Some (6 - 1)) (Some 15) = Some 929404800000"
  by code_simp

lemma civil_1999: "DateFromTime 929404800000 = 15" "MonthFromTime 929404800000 = 5"
  by code_simp+

lemma getters_1999: "getDate utcHost (Some 929404800000) = Some 15"
  "getMonth utcHost (Some 929404800000) = Some (6 - 1)"
  by (simp_all add: getDate_def getMonth_def LocalTime_def utcHost_def civil_1999)

lemma parse_2030: "parseInt (js ''5'') = Some 5" "parseInt (js ''7'') = Some 7"
  "parseInt (js ''2030'') = Some 2030"
  by code_simp+

lemma date_2030: "newDate utcHost (Some 2030) (Some (7 - 1)) (Some 5) = Some 1909440000000"
  by code_simp

lemma civil_2030: "DateFromTime 1909440000000 = 5" "MonthFromTime 1909440000000 = 6"
  "YearFromTime 1909440000000 = 2030"
  by code_simp+

lemma getters_2030: "getDate utcHost (Some 1909440000000) = Some 5"
  "getMonth utcHost (Some 1909440000000) = Some (7 - 1)"
  by (simp_all add: getDate_def getMonth_def LocalTime_def utcHost_def civil_2030)

lemma toISOString_valid:
  assumes "\<not> num_neq (getDate h D) x"
  shows "\<exists>t. D = Some t \<and> toISOString D = Inr (Some t)"
  using assms by (cases D) (auto simp: num_neq_def getDate_def toISOString_def)

text \<open>The result of the server's validation: the errors of the required fields, then
  the outcome of the due-date rules, which depends on the three date fields only.\<close>

lemma validateTaskForm_shape:
  fixes h fd
  defines "pre \<equiv> (if \<not> truthy (map_option trim (title fd)) then [titleRequired] else []) @
                (if \<not> truthy (map_option trim (description fd)) then [descriptionRequired] else [])"
      and "D \<equiv> newDate h (parseInt_opt (due_date_year fd))
                (num_minus (parseInt_opt (due_date_month fd)) 1) (parseInt_opt (due_date_day fd))"
  defines "de \<equiv>
     (if \<not> (truthy (due_date_day fd) \<or> truthy (due_date_month fd) \<or> truthy (due_date_year fd))
      then []
      else if \<not> truthy (due_date_day fd) \<or> \<not> truthy (due_date_month fd) \<or>
              \<not> truthy (due_date_year fd) then [incompleteDate]
      else if num_neq (getDate h D) (parseInt_opt (due_date_day fd)) \<or>
              num_neq (getMonth h D) (num_minus (parseInt_opt (due_date_month fd)) 1)
      then [invalidDate]
      else if num_le D (setHours0 h (Some (now h))) then [notInFuture] else [])"
  shows "\<exists>due. validateTaskForm h fd = Inr (pre @ de, due) \<and> (de \<noteq> [] \<longrightarrow> due = None)"
proof -
  have iso: "\<exists>t. toISOString D = Inr (Some t)"
    if "\<not> num_neq (getDate h D) (parseInt_opt (due_date_day fd))"
    using toISOString_valid [OF that] by blast
  show ?thesis
    unfolding validateTaskForm_eq Let_def pre_def [symmetric] D_def [symmetric] de_def
    using iso by auto
qed

lemma serverErrors_shape:
  "serverErrors h fd =
     (if \<not> truthy (map_option trim (title fd)) then [titleRequired] else []) @
     (if \<not> truthy (map_option trim (description fd)) then [descriptionRequired] else []) @
     (if \<not> (truthy (due_date_day fd) \<or> truthy (due_date_month fd) \<or> truthy (due_date_year fd))
      then []
      else if \<not> truthy (due_date_day fd) \<or> \<not> truthy (due_date_month fd) \<or>
              \<not> truthy (due_date_year fd) then [incompleteDate]
      else if num_neq (getDate h (newDate h (parseInt_opt (due_date_year fd))
                (num_minus (parseInt_opt (due_date_month fd)) 1) (parseInt_opt (due_date_day fd))))
                (parseInt_opt (due_date_day fd)) \<or>
              num_neq (getMonth h (newDate h (parseInt_opt (due_date_year fd))
                (num_minus (parseInt_opt (due_date_month fd)) 1) (parseInt_opt (due_date_day fd))))
                (num_minus (parseInt_opt (due_date_month fd)) 1)
      then [invalidDate]
      else if num_le (newDate h (parseInt_opt (due_date_year fd))
                (num_minus (parseInt_opt (due_date_month fd)) 1) (parseInt_opt (due_date_day fd)))
                (setHours0 h (Some (now h))) then [notInFuture] else [])"
  using validateTaskForm_shape [of h fd] unfolding serverErrors_def by auto

lemma validateTaskForm_returns: "\<exists>due. validateTaskForm h fd = Inr (serverErrors h fd, due)"
  using validateTaskForm_shape [of h fd] unfolding serverErrors_def by auto

lemma dueDateErrors_server:
  "dueDateErrors (serverErrors h fd) =
     (if \<not> (truthy (due_date_day fd) \<or> truthy (due_date_month fd) \<or> truthy (due_date_year fd))
      then []
      else if \<not> truthy (due_date_day fd) \<or> \<not> truthy (due_date_month fd) \<or>
              \<not> truthy (due_date_year fd) then [incompleteDate]
      else if num_neq (getDate h (newDate h (parseInt_opt (due_date_year fd))
                (num_minus (parseInt_opt (due_date_month fd)) 1) (parseInt_opt (due_date_day fd))))
                (parseInt_opt (due_date_day fd)) \<or>
              num_neq (getMonth h (newDate h (parseInt_opt (due_date_year fd))
                (num_minus (parseInt_opt (due_date_month fd)) 1) (parseInt_opt (due_date_day fd))))
                (num_minus (parseInt_opt (due_date_month fd)) 1)
      then [invalidDate]
      else if num_le (newDate h (parseInt_opt (due_date_year fd))
                (num_minus (parseInt_opt (due_date_month fd)) 1) (parseInt_opt (due_date_day fd)))
                (setHours0 h (Some (now h))) then [notInFuture] else [])"
  unfolding serverErrors_shape by simp

lemma error_distinct:
  "titleRequired \<noteq> descriptionRequired" "titleRequired \<noteq> incompleteDate"
  "titleRequired \<noteq> invalidDate" "titleRequired \<noteq> notInFuture"
  "descriptionRequired \<noteq> incompleteDate" "descriptionRequired \<noteq> invalidDate"
  "descriptionRequired \<noteq> notInFuture"
  by (simp_all add: titleRequired_def descriptionRequired_def incompleteDate_def
        invalidDate_def notInFuture_def)

lemma example_description_trim: "trim (js ''Task description'') \<noteq> []"
  by code_simp

lemma emptyTitle_errors: "serverErrors h (body emptyTitleRequest) = [titleRequired]"
  unfolding serverErrors_shape
  by (simp add: emptyTitleRequest_def truthy_def example_description_trim)

lemma handler_cases:
  obtains due where "validateTaskForm h (body req) = Inr (serverErrors h (body req), due)"
  using validateTaskForm_returns [of h "body req"] by blast

lemma clientTitle_shape:
  assumes "titleInput form = Some tv"
  shows "clientTitle form st =
     (fst st \<or> length (trim tv) < 3,
      snd st @ (if trim tv = [] then [titleRequired]
                else if length (trim tv) < 3 then [titleTooShort] else []))"
  using assms
  by (cases st) (auto simp: clientTitle_def Let_def addError_def push_def titleRequired_def
        titleTooShort_def)

lemma clientDescription_shape:
  assumes "descriptionInput form = Some dv"
  shows "clientDescription form st =
     (fst st \<or> length (trim dv) < 10,
      snd st @ (if trim dv = [] then [descriptionRequired]
                else if length (trim dv) < 10 then [descriptionTooShort] else []))"
  using assms
  by (cases st) (auto simp: clientDescription_def Let_def addError_def push_def
        descriptionRequired_def descriptionTooShort_def)

lemma addError_Pair: "addError st t a = (True, snd st @ [\<lparr>error_text = t, error_href = a\<rparr>])"
  by (simp add: addError_def push_def)

lemma clientDueDate_shape:
  fixes h ds ms ys
  assumes f: "dayInput form = Some ds" "monthInput form = Some ms" "yearInput form = Some ys"
  defines "D \<equiv> newDate h (parseInt ys) (num_minus (parseInt ms) 1) (parseInt ds)"
  defines "de \<equiv>
     (if trim ds = [] \<and> trim ms = [] \<and> trim ys = [] then []
      else if trim ds = [] \<or> trim ms = [] \<or> trim ys = [] then [incompleteDate]
      else if (isNaN (parseInt ds) \<or> isNaN (parseInt ms) \<or> isNaN (parseInt ys) \<or>
               num_lt (parseInt ds) (Some 1) \<or> num_gt (parseInt ds) (Some 31) \<or>
               num_lt (parseInt ms) (Some 1) \<or> num_gt (parseInt ms) (Some 12) \<or>
               num_lt (parseInt ys) (Some 2020)) \<or>
              (num_neq (getDate h D) (parseInt ds) \<or>
               num_neq (getMonth h D) (num_minus (parseInt ms) 1)) then [invalidDate]
      else if num_lt D (setHours0 h (Some (now h))) then [inThePast] else [])"
  shows "clientDueDate h form st = (fst st \<or> de \<noteq> [], snd st @ de)"
proof (cases "trim ds \<noteq> [] \<and> trim ms \<noteq> [] \<and> trim ys \<noteq> []")
  case True
  then have n: "trim ds \<noteq> []" "trim ms \<noteq> []" "trim ys \<noteq> []" by simp_all
  show ?thesis
    unfolding clientDueDate_parsed [OF f n] de_def D_def [symmetric] addError_Pair
      invalidDate_def [symmetric] inThePast_def [symmetric]
    using n by (cases st) simp
next
  case False
  then show ?thesis
    unfolding clientDueDate_def f de_def Let_def addError_Pair incompleteDate_def [symmetric]
    by (cases st) auto
qed

lemma error_distinct_client:
  "incompleteDate \<noteq> invalidDate" "incompleteDate \<noteq> notInFuture" "incompleteDate \<noteq> inThePast"
  "invalidDate \<noteq> notInFuture" "invalidDate \<noteq> inThePast" "notInFuture \<noteq> inThePast"
  "titleRequired \<noteq> titleTooShort" "titleRequired \<noteq> descriptionTooShort"
  "titleRequired \<noteq> inThePast"
  "descriptionRequired \<noteq> titleTooShort" "descriptionRequired \<noteq> descriptionTooShort"
  "descriptionRequired \<noteq> inThePast"
  by (simp_all add: titleRequired_def descriptionRequired_def incompleteDate_def
        invalidDate_def notInFuture_def inThePast_def titleTooShort_def descriptionTooShort_def)

lemma dueDateErrors_other [simp]:
  "dueDateErrors [titleTooShort] = []" "dueDateErrors [descriptionTooShort] = []"
  by (simp_all add: dueDateErrors_def titleTooShort_def descriptionTooShort_def)

lemma num_lt_le: "num_lt a b \<Longrightarrow> num_le a b"
  by (auto simp: num_lt_def num_le_def split: option.splits)

lemma round_trip_in_range:
  assumes "\<not> num_neq (getDate h (newDate h y (num_minus m 1) d)) d"
      and "\<not> num_neq (getMonth h (newDate h y (num_minus m 1) d)) (num_minus m 1)"
  shows "\<not> (isNaN d \<or> isNaN m \<or> isNaN y \<or> num_lt d (Some 1) \<or> num_gt d (Some 31) \<or>
            num_lt m (Some 1) \<or> num_gt m (Some 12))"
proof -
  have "\<not> (y = None \<or> m = None \<or> d = None)"
    using assms(1) NaN_mismatch [of y m d h] by blast
  then obtain y' m' d' where p: "y = Some y'" "m = Some m'" "d = Some d'" by auto
  have "\<not> (d' < 1 \<or> 31 < d' \<or> m' < 1 \<or> 12 < m')"
    using assms range_mismatch [of d' m' h "newDate h (Some y') (Some (m' - 1)) (Some d')"]
    unfolding p by (auto simp: num_minus_def)
  then show ?thesis by (simp add: p isNaN_def num_lt_def num_gt_def)
qed

lemma shortTitle_trim: "trim (js ''ab'') \<noteq> []" "length (trim (js ''ab'')) < 3"
  "\<not> length (trim (js ''Task description'')) < 10"
  by code_simp+

lemma error_distinct_short:
  "titleTooShort \<noteq> descriptionRequired" "titleTooShort \<noteq> descriptionTooShort"
  "titleTooShort \<noteq> incompleteDate" "titleTooShort \<noteq> invalidDate"
  "titleTooShort \<noteq> inThePast" "titleTooShort \<noteq> notInFuture"
  "titleTooShort \<noteq> titleRequired"
  "descriptionTooShort \<noteq> titleRequired" "descriptionTooShort \<noteq> incompleteDate"
  "descriptionTooShort \<noteq> invalidDate" "descriptionTooShort \<noteq> inThePast"
  "descriptionTooShort \<noteq> notInFuture" "descriptionTooShort \<noteq> descriptionRequired"
  by (simp_all add: titleRequired_def descriptionRequired_def incompleteDate_def
        invalidDate_def inThePast_def notInFuture_def titleTooShort_def descriptionTooShort_def)

lemma validRequest_valid: "validateTaskForm utcHost (body validRequest) = Inr ([], None)"
proof -
  have S: "serverErrors utcHost (body validRequest) = []"
    unfolding serverErrors_shape using example_title_ok
    by (simp add: validRequest_def truthy_def)
  obtain due where v: "validateTaskForm utcHost (body validRequest) = Inr ([], due)"
    using validateTaskForm_returns [of utcHost "body validRequest"] unfolding S by blast
  have "due = None"
    using v unfolding validateTaskForm_eq Let_def
    by (simp add: validRequest_def truthy_def)
  then show ?thesis using v by simp
qed

lemma parse_71: "parseInt (js ''1'') = Some 1" "parseInt (js ''1'') = Some 1"
  "parseInt (js ''71'') = Some 71"
  by code_simp+

lemma date_71: "newDate host1970 (Some 71) (Some (1 - 1)) (Some 1) = Some 31536000000"
  by code_simp

lemma civil_71: "DateFromTime 31536000000 = 1" "MonthFromTime 31536000000 = 0"
  "YearFromTime 31536000000 = 1971"
  by code_simp+

lemma getters_71: "getDate host1970 (Some 31536000000) = Some 1"
  "getMonth host1970 (Some 31536000000) = Some (1 - 1)"
  by (simp_all add: getDate_def getMonth_def LocalTime_def host1970_def civil_71)

lemma year_71: "getFullYear host1970 (Some 31536000000) = Some 1971"
  by (simp add: getFullYear_def LocalTime_def host1970_def civil_71)

lemma host1970_today: "setHours0 host1970 (Some (now host1970)) = Some 0"
  by code_simp

lemma parse_2021: "parseInt (js ''15'') = Some 15" "parseInt (js ''6'') = Some 6"
  "parseInt (js ''2021'') = Some 2021"
  by code_simp+

lemma date_2021: "newDate utcHost (Some 2021) (Some (6 - 1)) (Some 15) = Some 1623715200000"
  by code_simp

lemma civil_2021: "DateFromTime 1623715200000 = 15" "MonthFromTime 1623715200000 = 5"
  by code_simp+

lemma getters_2021: "getDate utcHost (Some 1623715200000) = Some 15"
  "getMonth utcHost (Some 1623715200000) = Some (6 - 1)"
  by (simp_all add: getDate_def getMonth_def LocalTime_def utcHost_def civil_2021)

lemma short_fields:
  "truthy (map_option trim (Some (js ''ab'')))" "truthy (map_option trim (Some (js ''short'')))"
  "trim (js ''short'') \<noteq> []" "length (trim (js ''short'')) < 10"
  by code_simp+

section \<open>Incomplete due dates\<close>

text \<open>
  Claim C3 fails for the client when it is read on the submitted strings: with a day
  field of one space and an empty month and year, one but not all three of the
  strings are empty, and the client's submit handler reports no error at all.
\<close>

theorem client_ignores_blank_day:
  "dayInput blankDayInputs = Some (js '' '') \<and> js '' '' \<noteq> [] \<and>
   monthInput blankDayInputs = Some [] \<and> yearInput blankDayInputs = Some [] \<and>
   taskFormSubmit utcHost blankDayInputs = (False, [])"
proof -
  have t: "trim (js '' '') = []" by code_simp
  have n: "trim (js ''New Task'') \<noteq> []" "\<not> length (trim (js ''New Task'')) < 3"
    "trim (js ''Task description'') \<noteq> []" "\<not> length (trim (js ''Task description'')) < 10"
    by code_simp+
  have i: "titleInput blankDayInputs = Some (js ''New Task'')"
    "descriptionInput blankDayInputs = Some (js ''Task description'')"
    "dayInput blankDayInputs = Some (js '' '')" "monthInput blankDayInputs = Some []"
    "yearInput blankDayInputs = Some []"
    by (simp_all add: blankDayInputs_def)
  have "taskFormSubmit utcHost blankDayInputs = (False, [])"
    unfolding taskFormSubmit_def clientTitle_shape [OF i(1)] clientDescription_shape [OF i(2)]
      clientDueDate_shape [OF i(3-5)]
    by (simp add: t n)
  then show ?thesis using i by (simp add: js_def)
qed

text \<open>
  Claim C3, amended. The server tests the submitted strings: whenever at least one but
  not all three of the submitted due-date fields are empty (or were not submitted),
  the server's validation returns, whatever the title and description are, no due
  date and an error list whose only error for the due date is "Please enter a
  complete due date or leave all fields blank", anchored to \<open>#due-date-day\<close>. The
  client tests the trimmed values of its three inputs: whenever at least one but not
  all three of them are empty after trimming, the submit handler sets its error flag
  and its only error for the due date is that same error. In both validators it does
  not matter which of the fields are the empty ones.
\<close>

theorem incomplete_due_date:
  "((truthy (due_date_day fd) \<or> truthy (due_date_month fd) \<or> truthy (due_date_year fd)) \<and>
    \<not> (truthy (due_date_day fd) \<and> truthy (due_date_month fd) \<and> truthy (due_date_year fd)) \<longrightarrow>
      (\<exists>errs. validateTaskForm h fd = Inr (errs, None) \<and>
              dueDateErrors errs = [incompleteDate])) \<and>
   (dayInput form = Some ds \<and> monthInput form = Some ms \<and> yearInput form = Some ys \<and>
    (trim ds \<noteq> [] \<or> trim ms \<noteq> [] \<or> trim ys \<noteq> []) \<and>
    \<not> (trim ds \<noteq> [] \<and> trim ms \<noteq> [] \<and> trim ys \<noteq> []) \<longrightarrow>
      fst (taskFormSubmit h' form) \<and>
      dueDateErrors (snd (taskFormSubmit h' form)) = [incompleteDate])"
proof (intro conjI impI)
  assume "(truthy (due_date_day fd) \<or> truthy (due_date_month fd) \<or> truthy (due_date_year fd)) \<and>
    \<not> (truthy (due_date_day fd) \<and> truthy (due_date_month fd) \<and> truthy (due_date_year fd))"
  then show "\<exists>errs. validateTaskForm h fd = Inr (errs, None) \<and>
              dueDateErrors errs = [incompleteDate]"
    by (auto simp: validateTaskForm_def Let_def push_def dueDateErrors_def incompleteDate_def)
next
  assume a: "dayInput form = Some ds \<and> monthInput form = Some ms \<and> yearInput form = Some ys \<and>
    (trim ds \<noteq> [] \<or> trim ms \<noteq> [] \<or> trim ys \<noteq> []) \<and>
    \<not> (trim ds \<noteq> [] \<and> trim ms \<noteq> [] \<and> trim ys \<noteq> [])"
  then have f: "dayInput form = Some ds" "monthInput form = Some ms" "yearInput form = Some ys"
    by simp_all
  have b: "\<not> (trim ds = [] \<and> trim ms = [] \<and> trim ys = [])"
    "trim ds = [] \<or> trim ms = [] \<or> trim ys = []"
    using a by auto
  have e: "taskFormSubmit h' form =
      (True, snd (clientDescription form (clientTitle form (False, []))) @ [incompleteDate])"
    unfolding taskFormSubmit_def clientDueDate_shape [OF f] using b by simp
  show "fst (taskFormSubmit h' form)" unfolding e by simp
  show "dueDateErrors (snd (taskFormSubmit h' form)) = [incompleteDate]"
    unfolding e by simp
qed

theorem incomplete_due_date_witness:
  "(\<exists>errs. validateTaskForm utcHost formWithoutYear = Inr (errs, None) \<and>
           dueDateErrors errs = [incompleteDate]) \<and>
   fst (taskFormSubmit utcHost inputsWithoutYear) \<and>
   dueDateErrors (snd (taskFormSubmit utcHost inputsWithoutYear)) = [incompleteDate]"
proof -
  have n: "trim (js ''15'') \<noteq> []" "trim [] = ([] :: jsstring)" by code_simp+
  have i: "dayInput inputsWithoutYear = Some (js ''15'')"
    "monthInput inputsWithoutYear = Some (js ''12'')" "yearInput inputsWithoutYear = Some []"
    by (simp_all add: inputsWithoutYear_def)
  have s: "truthy (due_date_day formWithoutYear)" "\<not> truthy (due_date_year formWithoutYear)"
    by (simp_all add: formWithoutYear_def truthy_def js_def)
  show ?thesis
    using incomplete_due_date [where fd = formWithoutYear and h = utcHost
        and form = inputsWithoutYear and ds = "js ''15''" and ms = "js ''12''" and ys = "[]"
        and h' = utcHost] n i s
    by blast
qed

section \<open>White space in the due-date fields\<close>

text \<open>
  Claim C10. The server tests the raw due-date strings: when one of the three fields
  is a non-empty string of white space only and the other two are empty, the server
  reports the incomplete-date error. The client trims the three values first and, on
  the same values, its due-date rules add no error and leave its state as it was.
\<close>

theorem whitespace_only_date_field:
  assumes ws: "s \<noteq> []" "\<forall>c\<in>set s. isWhiteSpace c"
      and pos: "(dd, dm, dy) \<in> {(s, [], []), ([], s, []), ([], [], s)}"
      and fd: "due_date_day fd = Some dd" "due_date_month fd = Some dm"
              "due_date_year fd = Some dy"
      and form: "dayInput form = Some dd" "monthInput form = Some dm" "yearInput form = Some dy"
  shows "(\<exists>errs. validateTaskForm h fd = Inr (errs, None) \<and>
                 dueDateErrors errs = [incompleteDate]) \<and>
         clientDueDate h' form st = st"
proof -
  have t: "trim s = []" using ws(2) by (simp add: trim_Nil_iff)
  have tr: "truthy (Some s)" "\<not> truthy (Some [])" using ws(1) by (simp_all add: truthy_def)
  consider (day) "dd = s" "dm = []" "dy = []" | (month) "dd = []" "dm = s" "dy = []"
    | (year) "dd = []" "dm = []" "dy = s"
    using pos by auto
  then have some: "truthy (due_date_day fd) \<or> truthy (due_date_month fd) \<or> truthy (due_date_year fd)"
    and notall: "\<not> (truthy (due_date_day fd) \<and> truthy (due_date_month fd) \<and>
                      truthy (due_date_year fd))"
    and blank: "trim dd = []" "trim dm = []" "trim dy = []"
    by (cases; simp add: fd tr t)+
  have srv: "\<exists>errs. validateTaskForm h fd = Inr (errs, None) \<and>
                    dueDateErrors errs = [incompleteDate]"
    unfolding validateTaskForm_eq Let_def using some notall by simp
  have cli: "clientDueDate h' form st = st"
    unfolding clientDueDate_def form Let_def by (simp add: blank)
  show ?thesis using srv cli by blast
qed

theorem whitespace_only_date_field_witness:
  "(\<exists>errs. validateTaskForm utcHost blankDayForm = Inr (errs, None) \<and>
           dueDateErrors errs = [incompleteDate]) \<and>
   clientDueDate utcHost blankDayInputs (False, []) = (False, [])"
  using whitespace_only_date_field [of "js '' ''" "js '' ''" "[]" "[]" blankDayForm
          blankDayInputs utcHost utcHost "(False, [])"]
  by (simp add: blankDayForm_def blankDayInputs_def js_def isWhiteSpace_def)

section \<open>The overdue flag\<close>

text \<open>
  Claim C7. In the display record of a task, from \<open>formatSingleTask\<close> and from
  \<open>formatTasksWithDates\<close> alike, \<open>isOverdue\<close> is true exactly when the task has a due
  date, that date is before the current instant, and the status is not COMPLETED. In
  particular a CANCELLED task whose due date has passed is flagged overdue.
\<close>

theorem overdue_flag:
  "isOverdue (formatSingleTask h t) =
     ((\<exists>d. dueDate t = Some (Some d) \<and> d < now h) \<and> task_status t \<noteq> COMPLETED) \<and>
   map isOverdue (formatTasksWithDates h ts) =
     map (\<lambda>t. (\<exists>d. dueDate t = Some (Some d) \<and> d < now h) \<and> task_status t \<noteq> COMPLETED) ts \<and>
   (task_status t = CANCELLED \<and> dueDate t = Some (Some d') \<and> d' < now h \<longrightarrow>
      isOverdue (formatSingleTask h t) \<and> isOverdue (formatTask h t))"
  by (auto simp: formatSingleTask_def formatTasksWithDates_def formatTask_def Let_def
        Task.defs TaskListItem.defs TaskDetail.defs num_lt_def parseDate_def
        split: option.splits)

theorem overdue_flag_witness:
  "task_status cancelledTask = CANCELLED \<and> dueDate cancelledTask = Some (Some 1735639200000) \<and>
   1735639200000 < now utcHost \<and>
   isOverdue (formatSingleTask utcHost cancelledTask) \<and>
   isOverdue (formatTask utcHost cancelledTask)"
  using overdue_flag [of utcHost cancelledTask "[]" 1735639200000]
  by (simp add: cancelledTask_def utcHost_def)

section \<open>Dates that do not exist\<close>

text \<open>
  Claim C5. A due date whose day and month parse to 30 or 31 February, or to the 31st
  of April, June, September or November, with any year field that is not blank, and
  more generally every triple whose constructed date does not give back the same day
  and month, is rejected by the server and by the client with "Please enter a valid
  due date" on \<open>#due-date-day\<close>, and no \<open>dueDate\<close> is produced: the rolled-over date
  is never accepted.
\<close>

theorem rollover_dates_rejected:
  assumes parse: "parseInt ds = Some d" "parseInt ms = Some m" and year: "trim ys \<noteq> []"
      and fd: "due_date_day fd = Some ds" "due_date_month fd = Some ms" "due_date_year fd = Some ys"
      and form: "dayInput form = Some ds" "monthInput form = Some ms" "yearInput form = Some ys"
      and date: "(m = 2 \<and> 30 \<le> d) \<or> (m \<in> {4, 6, 9, 11} \<and> 31 \<le> d) \<or>
                 num_neq (getDate h (newDate h (parseInt ys) (Some (m - 1)) (Some d))) (Some d) \<or>
                 num_neq (getMonth h (newDate h (parseInt ys) (Some (m - 1)) (Some d))) (Some (m - 1))"
  shows "(\<exists>errs. validateTaskForm h fd = Inr (errs, None) \<and> dueDateErrors errs = [invalidDate]) \<and>
         fst (taskFormSubmit h form) \<and> dueDateErrors (snd (taskFormSubmit h form)) = [invalidDate]"
proof -
  have ne: "ds \<noteq> []" "ms \<noteq> []" "ys \<noteq> []" "trim ds \<noteq> []" "trim ms \<noteq> []"
    using parse year parseInt_Some_nonempty [of ds d] parseInt_Some_nonempty [of ms m]
      parseInt_Some_nonempty [of "trim ds" d] parseInt_Some_nonempty [of "trim ms" m]
    by (auto simp: parseInt_trim)
  have mis: "num_neq (getDate h (newDate h (parseInt ys) (Some (m - 1)) (Some d))) (Some d) \<or>
             num_neq (getMonth h (newDate h (parseInt ys) (Some (m - 1)) (Some d))) (Some (m - 1))"
    using date rollover_mismatch [of m d h "parseInt ys"] by blast
  have srv: "\<exists>errs. validateTaskForm h fd = Inr (errs, None) \<and> dueDateErrors errs = [invalidDate]"
    by (rule server_invalid) (use fd ne mis parse in \<open>simp_all add: truthy_def parseInt_opt_def num_minus_def\<close>)
  have cli: "fst (taskFormSubmit h form) \<and> dueDateErrors (snd (taskFormSubmit h form)) = [invalidDate]"
    by (rule client_invalid [OF form ne(4,5) year])
       (use mis parse in \<open>simp add: num_minus_def\<close>)
  show ?thesis using srv cli by simp
qed

theorem rollover_dates_rejected_witness:
  "(\<exists>errs. validateTaskForm utcHost formFeb30 = Inr (errs, None) \<and>
           dueDateErrors errs = [invalidDate]) \<and>
   fst (taskFormSubmit utcHost inputsFeb30) \<and>
   dueDateErrors (snd (taskFormSubmit utcHost inputsFeb30)) = [invalidDate]"
proof -
  have p: "parseInt (js ''30'') = Some 30" "parseInt (js ''2'') = Some 2"
    "trim (js ''2030'') \<noteq> []"
    by code_simp+
  show ?thesis
    using rollover_dates_rejected [of "js ''30''" 30 "js ''2''" 2 "js ''2030''" formFeb30
            inputsFeb30 utcHost, OF p]
    by (simp add: formFeb30_def inputsFeb30_def)
qed

section \<open>Today and tomorrow\<close>

text \<open>
  Claim C2 fails for the client: its comparison is \<open>dateObj < today\<close> with the message
  "Due date cannot be in the past", so today's date passes. On the host \<open>utcHost\<close>,
  whose clock shows 2 November 2025, the client accepts the due date 2/11/2025.
\<close>

theorem client_accepts_today:
  "parseInt (js ''2'') = Some (DateFromTime (LocalTime utcHost (now utcHost))) \<and>
   parseInt (js ''11'') = Some (MonthFromTime (LocalTime utcHost (now utcHost)) + 1) \<and>
   parseInt (js ''2025'') = Some (YearFromTime (LocalTime utcHost (now utcHost))) \<and>
   taskFormSubmit utcHost inputsToday = (False, [])"
proof -
  have p: "parseInt (js ''2'') = Some (DateFromTime (LocalTime utcHost (now utcHost) + 0 * msPerDay))"
    "parseInt (js ''11'') = Some (MonthFromTime (LocalTime utcHost (now utcHost) + 0 * msPerDay) + 1)"
    "parseInt (js ''2025'') = Some (YearFromTime (LocalTime utcHost (now utcHost) + 0 * msPerDay))"
    by code_simp+
  have f: "dayInput inputsToday = Some (js ''2'')" "monthInput inputsToday = Some (js ''11'')"
    "yearInput inputsToday = Some (js ''2025'')"
    by (simp_all add: inputsToday_def)
  have td: "clientDescription inputsToday (clientTitle inputsToday (False, [])) = (False, [])"
    by code_simp
  have "taskFormSubmit utcHost inputsToday = (False, [])"
    unfolding taskFormSubmit_def td
    by (rule near_date_client [OF utcHost_plausible _ p f]) simp
  then show ?thesis using p by simp
qed

text \<open>
  Claim C2, amended. On a plausible host, for every triple of strings that parse to
  today's local date (\<open>k = 0\<close>) or to the date one day later (\<open>k = 1\<close>): the server
  rejects today's date with "Due date must be in the future" on \<open>#due-date-day\<close> and
  accepts the next day's date, producing its \<open>dueDate\<close>; the client, which rejects only
  dates before today, reports no due-date error for either.
\<close>

theorem today_and_tomorrow:
  assumes host: "plausibleHost h" and k: "k = 0 \<or> k = 1"
      and parse: "parseInt ds = Some (DateFromTime (LocalTime h (now h) + k * msPerDay))"
                 "parseInt ms = Some (MonthFromTime (LocalTime h (now h) + k * msPerDay) + 1)"
                 "parseInt ys = Some (YearFromTime (LocalTime h (now h) + k * msPerDay))"
      and fd: "due_date_day fd = Some ds" "due_date_month fd = Some ms" "due_date_year fd = Some ys"
      and form: "dayInput form = Some ds" "monthInput form = Some ms" "yearInput form = Some ys"
  shows "(k = 0 \<longrightarrow> (\<exists>errs. validateTaskForm h fd = Inr (errs, None) \<and>
                          dueDateErrors errs = [notInFuture])) \<and>
         (k = 1 \<longrightarrow> (\<exists>errs iso. validateTaskForm h fd = Inr (errs, Some iso) \<and>
                          dueDateErrors errs = [])) \<and>
         dueDateErrors (snd (taskFormSubmit h form)) = []"
  using k
  by (auto simp: near_date_server [OF host k parse fd] Let_def taskFormSubmit_def
        near_date_client [OF host k parse form])

theorem today_and_tomorrow_witness:
  "(\<exists>errs. validateTaskForm utcHost formToday = Inr (errs, None) \<and> dueDateErrors errs = [notInFuture]) \<and>
   (\<exists>errs iso. validateTaskForm utcHost formTomorrow = Inr (errs, Some iso) \<and> dueDateErrors errs = []) \<and>
   dueDateErrors (snd (taskFormSubmit utcHost inputsToday)) = [] \<and>
   dueDateErrors (snd (taskFormSubmit utcHost inputsTomorrow)) = []"
proof -
  have h: "plausibleHost utcHost" by (simp add: plausibleHost_def utcHost_def msPerDay_def)
  have p0: "parseInt (js ''2'') = Some (DateFromTime (LocalTime utcHost (now utcHost) + 0 * msPerDay))"
    "parseInt (js ''11'') = Some (MonthFromTime (LocalTime utcHost (now utcHost) + 0 * msPerDay) + 1)"
    "parseInt (js ''2025'') = Some (YearFromTime (LocalTime utcHost (now utcHost) + 0 * msPerDay))"
    by code_simp+
  have p1: "parseInt (js ''3'') = Some (DateFromTime (LocalTime utcHost (now utcHost) + 1 * msPerDay))"
    "parseInt (js ''11'') = Some (MonthFromTime (LocalTime utcHost (now utcHost) + 1 * msPerDay) + 1)"
    "parseInt (js ''2025'') = Some (YearFromTime (LocalTime utcHost (now utcHost) + 1 * msPerDay))"
    by code_simp+
  show ?thesis
    using today_and_tomorrow [OF h _ p0, of formToday inputsToday]
      today_and_tomorrow [OF h _ p1, of formTomorrow inputsTomorrow]
    by (simp add: formToday_def inputsToday_def formTomorrow_def inputsTomorrow_def)
qed

section \<open>Invalid dates\<close>

text \<open>
  Claim C4 fails for the server, which has no lower bound on the year: the due date
  15/6/1999, whose year is below the client's bound of 2020, gets "Due date must be
  in the future" from the server on \<open>utcHost\<close>, not the invalid-date error that the
  client gives it.
\<close>

theorem server_has_no_year_bound:
  "trim (js ''15'') \<noteq> [] \<and> trim (js ''6'') \<noteq> [] \<and> trim (js ''1999'') \<noteq> [] \<and>
   num_lt (parseInt (js ''1999'')) (Some 2020) \<and>
   validateTaskForm utcHost form1999 = Inr ([notInFuture], None) \<and>
   dueDateErrors [notInFuture] \<noteq> [invalidDate] \<and>
   dueDateErrors (snd (taskFormSubmit utcHost inputs1999)) = [invalidDate]"
proof -
  note n = near_date_nonempty [OF parse_1999]
  have f: "due_date_day form1999 = Some (js ''15'')" "due_date_month form1999 = Some (js ''6'')"
    "due_date_year form1999 = Some (js ''1999'')"
    by (simp_all add: form1999_def)
  have i: "dayInput inputs1999 = Some (js ''15'')" "monthInput inputs1999 = Some (js ''6'')"
    "yearInput inputs1999 = Some (js ''1999'')"
    by (simp_all add: inputs1999_def)
  have v: "validateTaskForm utcHost form1999 = Inr ([notInFuture], None)"
    unfolding validate_parsed [OF f parse_1999 date_1999 getters_1999 utcHost_today]
    using example_title_ok by (simp add: form1999_def)
  have e: "dueDateErrors [notInFuture] \<noteq> [invalidDate]"
    by (simp add: dueDateErrors_def notInFuture_def invalidDate_def)
  have y: "num_lt (parseInt (js ''1999'')) (Some 2020)" by (simp add: parse_1999 num_lt_def)
  have c: "fst (taskFormSubmit utcHost inputs1999) \<and>
           dueDateErrors (snd (taskFormSubmit utcHost inputs1999)) = [invalidDate]"
    by (rule client_invalid [OF i n(4-6)]) (use y in blast)
  show ?thesis using n(4-6) v e y c by simp
qed

text \<open>
  Claim C4, amended. For every triple whose three fields are not blank: when a
  component does not parse as an integer, or the day is outside 1..31, or the month
  is outside 1..12, both the server and the client report exactly the invalid-date
  error "Please enter a valid due date" on \<open>#due-date-day\<close>; when the year is below
  2020 the client reports that error. (The server classifies a year below 2020 by its
  other rules.)
\<close>

theorem invalid_date_category:
  assumes fd: "due_date_day fd = Some ds" "due_date_month fd = Some ms" "due_date_year fd = Some ys"
      and form: "dayInput form = Some ds" "monthInput form = Some ms" "yearInput form = Some ys"
      and n: "trim ds \<noteq> []" "trim ms \<noteq> []" "trim ys \<noteq> []"
  shows "(isNaN (parseInt ds) \<or> isNaN (parseInt ms) \<or> isNaN (parseInt ys) \<or>
          num_lt (parseInt ds) (Some 1) \<or> num_gt (parseInt ds) (Some 31) \<or>
          num_lt (parseInt ms) (Some 1) \<or> num_gt (parseInt ms) (Some 12) \<longrightarrow>
            (\<exists>errs. validateTaskForm h fd = Inr (errs, None) \<and>
                    dueDateErrors errs = [invalidDate]) \<and>
            fst (taskFormSubmit h' form) \<and>
            dueDateErrors (snd (taskFormSubmit h' form)) = [invalidDate]) \<and>
         (num_lt (parseInt ys) (Some 2020) \<longrightarrow>
            fst (taskFormSubmit h' form) \<and>
            dueDateErrors (snd (taskFormSubmit h' form)) = [invalidDate])"
proof (intro conjI impI)
  assume y: "num_lt (parseInt ys) (Some 2020)"
  show "fst (taskFormSubmit h' form)"
    "dueDateErrors (snd (taskFormSubmit h' form)) = [invalidDate]"
    using client_invalid [OF form n, of h'] y by blast+
next
  assume bad: "isNaN (parseInt ds) \<or> isNaN (parseInt ms) \<or> isNaN (parseInt ys) \<or>
          num_lt (parseInt ds) (Some 1) \<or> num_gt (parseInt ds) (Some 31) \<or>
          num_lt (parseInt ms) (Some 1) \<or> num_gt (parseInt ms) (Some 12)"
  have ne: "ds \<noteq> []" "ms \<noteq> []" "ys \<noteq> []" using n by auto
  have mis: "num_neq (getDate h (newDate h (parseInt ys) (num_minus (parseInt ms) 1) (parseInt ds)))
               (parseInt ds) \<or>
             num_neq (getMonth h (newDate h (parseInt ys) (num_minus (parseInt ms) 1) (parseInt ds)))
               (num_minus (parseInt ms) 1)"
  proof (cases "parseInt ys = None \<or> parseInt ms = None \<or> parseInt ds = None")
    case True
    then show ?thesis using NaN_mismatch [of "parseInt ys" "parseInt ms" "parseInt ds" h] by blast
  next
    case False
    then obtain y m d where p: "parseInt ys = Some y" "parseInt ms = Some m" "parseInt ds = Some d"
      by auto
    have "d < 1 \<or> 31 < d \<or> m < 1 \<or> 12 < m"
      using bad by (simp add: p isNaN_def num_lt_def num_gt_def)
    then show ?thesis
      using range_mismatch [of d m h "newDate h (Some y) (Some (m - 1)) (Some d)"]
      by (simp add: p num_minus_def)
  qed
  show "\<exists>errs. validateTaskForm h fd = Inr (errs, None) \<and> dueDateErrors errs = [invalidDate]"
    by (rule server_invalid) (use fd ne mis in \<open>simp_all add: truthy_def parseInt_opt_def\<close>)
  show "fst (taskFormSubmit h' form)"
    "dueDateErrors (snd (taskFormSubmit h' form)) = [invalidDate]"
    using client_invalid [OF form n, of h'] bad by blast+
qed

theorem invalid_date_category_witness:
  "(\<exists>errs. validateTaskForm utcHost formBadRange = Inr (errs, None) \<and>
           dueDateErrors errs = [invalidDate]) \<and>
   fst (taskFormSubmit utcHost inputsBadRange) \<and>
   dueDateErrors (snd (taskFormSubmit utcHost inputsBadRange)) = [invalidDate]"
proof -
  have n: "trim (js ''32'') \<noteq> []" "trim (js ''13'') \<noteq> []" "trim (js ''1999'') \<noteq> []"
    by code_simp+
  have b: "num_gt (parseInt (js ''32'')) (Some 31)" "num_lt (parseInt (js ''1999'')) (Some 2020)"
    by code_simp+
  show ?thesis
    using invalid_date_category [of formBadRange "js ''32''" "js ''13''" "js ''1999''"
            inputsBadRange utcHost utcHost, OF _ _ _ _ _ _ n] b
    by (simp add: formBadRange_def inputsBadRange_def)
qed

section \<open>The due date from the form to the edit form\<close>




section \<open>The error list of the server\<close>



section \<open>Error paths of the create and edit handlers\<close>

text \<open>
  Claim C8 fails on the edit route when the task cannot be fetched again: with an
  empty title and an API whose every call is rejected, POST /tasks/:id/edit renders
  the generic \<open>error\<close> view with only a message; the form data is not in the data bag.
\<close>

theorem edit_fallback_loses_form:
  "serverErrors utcHost (body emptyTitleRequest) = [titleRequired] \<and>
   postTasksEdit utcHost rejectingApi emptyTitleRequest =
     Render ''error'' (emptyBag\<lparr>message := Some ''Failed to update task''\<rparr>) \<and>
   formData (emptyBag\<lparr>message := Some ''Failed to update task''\<rparr>) = None"
proof -
  obtain due where v: "validateTaskForm utcHost (body emptyTitleRequest) =
      Inr (serverErrors utcHost (body emptyTitleRequest), due)"
    by (rule handler_cases)
  show ?thesis
    by (simp add: postTasksEdit_def v emptyTitle_errors editCatch_def rejectingApi_def
          emptyBag_def)
qed

text \<open>
  Claim C8, amended. On the create route: when validation reports an error, the
  response renders \<open>tasks/create\<close> with the error list and with \<open>formData\<close> the
  submitted body; when validation passes and the POST of the payload that the handler
  sends is rejected, it renders \<open>tasks/create\<close> with "Failed to create task. Please
  try again." and with \<open>formData\<close> the submitted body. On the edit route: when
  validation reports an error and the task can be fetched, the response renders
  \<open>tasks/edit\<close> with the task, the error list and \<open>formData\<close> the submitted body; when
  that fetch is rejected and the second one resolves, or when validation passes, the
  PUT of the payload that the handler sends is rejected and the fetch that follows
  resolves, it renders \<open>tasks/edit\<close> with the task, "Failed to update task. Please try
  again." and \<open>formData\<close> the submitted body. In the remaining error paths of the edit
  route, where the last fetch is rejected as well, the response is the fallback: the
  generic \<open>error\<close> view with the message "Failed to update task" and no form data. A
  body that passes validation has a title and a description, so these are all the
  error paths; none of them is a redirect.
\<close>

theorem error_paths_rerender:
  "(serverErrors h (body req) \<noteq> [] \<longrightarrow>
      postTasksCreate h api req =
        Render ''tasks/create''
          (emptyBag\<lparr>errors := Some (serverErrors h (body req)),
                    formData := Some (body req),
                    csrfToken := Some (csrfTokenOf req)\<rparr>)) \<and>
   (validateTaskForm h (body req) = Inr ([], due) \<and>
    title (body req) = Some t \<and> description (body req) = Some d \<and>
    axios_post api
      \<lparr>payload_title = trim t, payload_description = trim d,
       payload_status = (if truthy (status (body req)) then status (body req)
                         else Some (js ''TODO'')),
       payload_dueDate = due\<rparr> = Rejected \<longrightarrow>
      postTasksCreate h api req =
        Render ''tasks/create''
          (emptyBag\<lparr>error := Some ''Failed to create task. Please try again.'',
                    formData := Some (body req),
                    csrfToken := Some (csrfTokenOf req)\<rparr>)) \<and>
   (serverErrors h (body req) \<noteq> [] \<and> axios_get api 0 (params_id req) = Resolved taskData \<longrightarrow>
      postTasksEdit h api req =
        Render ''tasks/edit''
          (emptyBag\<lparr>task := Some (formatSingleTask h taskData),
                    errors := Some (serverErrors h (body req)),
                    formData := Some (body req),
                    csrfToken := Some (csrfTokenOf req)\<rparr>)) \<and>
   (serverErrors h (body req) \<noteq> [] \<and> axios_get api 0 (params_id req) = Rejected \<and>
    axios_get api 1 (params_id req) = Resolved taskData \<longrightarrow>
      postTasksEdit h api req =
        Render ''tasks/edit''
          (emptyBag\<lparr>task := Some (formatSingleTask h taskData),
                    error := Some ''Failed to update task. Please try again.'',
                    formData := Some (body req),
                    csrfToken := Some (csrfTokenOf req)\<rparr>)) \<and>
   (serverErrors h (body req) \<noteq> [] \<and> axios_get api 0 (params_id req) = Rejected \<and>
    axios_get api 1 (params_id req) = Rejected \<longrightarrow>
      postTasksEdit h api req =
        Render ''error'' (emptyBag\<lparr>message := Some ''Failed to update task''\<rparr>)) \<and>
   (validateTaskForm h (body req) = Inr ([], due) \<and>
    title (body req) = Some t \<and> description (body req) = Some d \<and>
    axios_put api (params_id req)
      \<lparr>payload_title = trim t, payload_description = trim d,
       payload_status = status (body req), payload_dueDate = due\<rparr> = Rejected \<and>
    axios_get api 0 (params_id req) = Resolved taskData \<longrightarrow>
      postTasksEdit h api req =
        Render ''tasks/edit''
          (emptyBag\<lparr>task := Some (formatSingleTask h taskData),
                    error := Some ''Failed to update task. Please try again.'',
                    formData := Some (body req),
                    csrfToken := Some (csrfTokenOf req)\<rparr>)) \<and>
   (validateTaskForm h (body req) = Inr ([], due) \<and>
    title (body req) = Some t \<and> description (body req) = Some d \<and>
    axios_put api (params_id req)
      \<lparr>payload_title = trim t, payload_description = trim d,
       payload_status = status (body req), payload_dueDate = due\<rparr> = Rejected \<and>
    axios_get api 0 (params_id req) = Rejected \<longrightarrow>
      postTasksEdit h api req =
        Render ''error'' (emptyBag\<lparr>message := Some ''Failed to update task''\<rparr>)) \<and>
   (serverErrors h (body req) = [] \<longrightarrow>
      (\<exists>due t d. validateTaskForm h (body req) = Inr ([], due) \<and>
                 title (body req) = Some t \<and> description (body req) = Some d)) \<and>
   formData (emptyBag\<lparr>message := Some ''Failed to update task''\<rparr>) = None"
proof -
  obtain due0 where v: "validateTaskForm h (body req) = Inr (serverErrors h (body req), due0)"
    by (rule handler_cases)
  have 1: "serverErrors h (body req) \<noteq> [] \<longrightarrow>
      postTasksCreate h api req =
        Render ''tasks/create''
          (emptyBag\<lparr>errors := Some (serverErrors h (body req)),
                    formData := Some (body req),
                    csrfToken := Some (csrfTokenOf req)\<rparr>)"
    by (simp add: postTasksCreate_def v)
  have 2: "validateTaskForm h (body req) = Inr ([], due) \<and>
    title (body req) = Some t \<and> description (body req) = Some d \<and>
    axios_post api
      \<lparr>payload_title = trim t, payload_description = trim d,
       payload_status = (if truthy (status (body req)) then status (body req)
                         else Some (js ''TODO'')),
       payload_dueDate = due\<rparr> = Rejected \<longrightarrow>
      postTasksCreate h api req =
        Render ''tasks/create''
          (emptyBag\<lparr>error := Some ''Failed to create task. Please try again.'',
                    formData := Some (body req),
                    csrfToken := Some (csrfTokenOf req)\<rparr>)"
    by (simp add: postTasksCreate_def createCatch_def)
  have 3: "serverErrors h (body req) \<noteq> [] \<and>
    axios_get api 0 (params_id req) = Resolved taskData \<longrightarrow>
      postTasksEdit h api req =
        Render ''tasks/edit''
          (emptyBag\<lparr>task := Some (formatSingleTask h taskData),
                    errors := Some (serverErrors h (body req)),
                    formData := Some (body req),
                    csrfToken := Some (csrfTokenOf req)\<rparr>)"
    by (simp add: postTasksEdit_def v)
  have 4: "serverErrors h (body req) \<noteq> [] \<and> axios_get api 0 (params_id req) = Rejected \<and>
    axios_get api 1 (params_id req) = Resolved taskData \<longrightarrow>
      postTasksEdit h api req =
        Render ''tasks/edit''
          (emptyBag\<lparr>task := Some (formatSingleTask h taskData),
                    error := Some ''Failed to update task. Please try again.'',
                    formData := Some (body req),
                    csrfToken := Some (csrfTokenOf req)\<rparr>)"
    by (simp add: postTasksEdit_def v editCatch_def)
  have 5: "serverErrors h (body req) \<noteq> [] \<and> axios_get api 0 (params_id req) = Rejected \<and>
    axios_get api 1 (params_id req) = Rejected \<longrightarrow>
      postTasksEdit h api req =
        Render ''error'' (emptyBag\<lparr>message := Some ''Failed to update task''\<rparr>)"
    by (simp add: postTasksEdit_def v editCatch_def)
  have 6: "validateTaskForm h (body req) = Inr ([], due) \<and>
    title (body req) = Some t \<and> description (body req) = Some d \<and>
    axios_put api (params_id req)
      \<lparr>payload_title = trim t, payload_description = trim d,
       payload_status = status (body req), payload_dueDate = due\<rparr> = Rejected \<and>
    axios_get api 0 (params_id req) = Resolved taskData \<longrightarrow>
      postTasksEdit h api req =
        Render ''tasks/edit''
          (emptyBag\<lparr>task := Some (formatSingleTask h taskData),
                    error := Some ''Failed to update task. Please try again.'',
                    formData := Some (body req),
                    csrfToken := Some (csrfTokenOf req)\<rparr>)"
    by (simp add: postTasksEdit_def editCatch_def)
  have 7: "validateTaskForm h (body req) = Inr ([], due) \<and>
    title (body req) = Some t \<and> description (body req) = Some d \<and>
    axios_put api (params_id req)
      \<lparr>payload_title = trim t, payload_description = trim d,
       payload_status = status (body req), payload_dueDate = due\<rparr> = Rejected \<and>
    axios_get api 0 (params_id req) = Rejected \<longrightarrow>
      postTasksEdit h api req =
        Render ''error'' (emptyBag\<lparr>message := Some ''Failed to update task''\<rparr>)"
    by (simp add: postTasksEdit_def editCatch_def)
  have 8: "serverErrors h (body req) = [] \<longrightarrow>
      (\<exists>due t d. validateTaskForm h (body req) = Inr ([], due) \<and>
                 title (body req) = Some t \<and> description (body req) = Some d)"
  proof
    assume e: "serverErrors h (body req) = []"
    have "(if \<not> truthy (map_option trim (title (body req))) then [titleRequired] else []) = []"
      "(if \<not> truthy (map_option trim (description (body req))) then [descriptionRequired]
        else []) = []"
      using e unfolding serverErrors_shape by simp_all
    then have "truthy (map_option trim (title (body req)))"
      "truthy (map_option trim (description (body req)))"
      by (simp_all split: if_splits)
    then have "title (body req) \<noteq> None" "description (body req) \<noteq> None"
      by (auto simp: truthy_def split: option.splits)
    then show "\<exists>due t d. validateTaskForm h (body req) = Inr ([], due) \<and>
                 title (body req) = Some t \<and> description (body req) = Some d"
      using v e by auto
  qed
  have 9: "formData (emptyBag\<lparr>message := Some ''Failed to update task''\<rparr>) = None"
    by (simp add: emptyBag_def)
  show ?thesis by (intro conjI) (rule 1 2 3 4 5 6 7 8 9)+
qed

theorem error_paths_rerender_witness:
  "postTasksCreate utcHost readOnlyApi emptyTitleRequest =
     Render ''tasks/create''
       (emptyBag\<lparr>errors := Some [titleRequired],
                 formData := Some (body emptyTitleRequest),
                 csrfToken := Some (csrfTokenOf emptyTitleRequest)\<rparr>) \<and>
   postTasksCreate utcHost readOnlyApi validRequest =
     Render ''tasks/create''
       (emptyBag\<lparr>error := Some ''Failed to create task. Please try again.'',
                 formData := Some (body validRequest),
                 csrfToken := Some (csrfTokenOf validRequest)\<rparr>) \<and>
   postTasksEdit utcHost readOnlyApi emptyTitleRequest =
     Render ''tasks/edit''
       (emptyBag\<lparr>task := Some (formatSingleTask utcHost cancelledTask),
                 errors := Some [titleRequired],
                 formData := Some (body emptyTitleRequest),
                 csrfToken := Some (csrfTokenOf emptyTitleRequest)\<rparr>) \<and>
   postTasksEdit utcHost flakyApi emptyTitleRequest =
     Render ''tasks/edit''
       (emptyBag\<lparr>task := Some (formatSingleTask utcHost cancelledTask),
                 error := Some ''Failed to update task. Please try again.'',
                 formData := Some (body emptyTitleRequest),
                 csrfToken := Some (csrfTokenOf emptyTitleRequest)\<rparr>) \<and>
   postTasksEdit utcHost readOnlyApi validRequest =
     Render ''tasks/edit''
       (emptyBag\<lparr>task := Some (formatSingleTask utcHost cancelledTask),
                 error := Some ''Failed to update task. Please try again.'',
                 formData := Some (body validRequest),
                 csrfToken := Some (csrfTokenOf validRequest)\<rparr>) \<and>
   postTasksEdit utcHost flakyApi validRequest =
     Render ''error'' (emptyBag\<lparr>message := Some ''Failed to update task''\<rparr>) \<and>
   postTasksEdit utcHost rejectingApi emptyTitleRequest =
     Render ''error'' (emptyBag\<lparr>message := Some ''Failed to update task''\<rparr>) \<and>
   (\<exists>due t d. validateTaskForm utcHost (body validRequest) = Inr ([], due) \<and>
              title (body validRequest) = Some t \<and> description (body validRequest) = Some d)"
proof -
  have e: "serverErrors utcHost (body emptyTitleRequest) = [titleRequired]"
    by (rule emptyTitle_errors)
  have n: "serverErrors utcHost (body emptyTitleRequest) \<noteq> []" unfolding e by simp
  have s: "serverErrors utcHost (body validRequest) = []"
    by (simp add: serverErrors_def validRequest_valid)
  have b: "title (body validRequest) = Some (js ''New Task'')"
    "description (body validRequest) = Some (js ''Task description'')"
    by (simp_all add: validRequest_def)
  have w: "axios_post readOnlyApi p = Rejected" "axios_put readOnlyApi i p' = Rejected"
    "axios_put flakyApi i p' = Rejected" for p i p'
    by (simp_all add: readOnlyApi_def flakyApi_def)
  have g: "axios_get readOnlyApi 0 i = Resolved cancelledTask"
    "axios_get flakyApi 0 i = Rejected" "axios_get flakyApi 1 i = Resolved cancelledTask"
    "axios_get rejectingApi 0 i = Rejected" "axios_get rejectingApi 1 i = Rejected" for i
    by (simp_all add: readOnlyApi_def flakyApi_def rejectingApi_def)
  note a = error_paths_rerender [where h = utcHost and req = emptyTitleRequest
      and api = readOnlyApi and taskData = cancelledTask]
  note b1 = error_paths_rerender [where h = utcHost and req = validRequest
      and api = readOnlyApi and taskData = cancelledTask and due = None
      and t = "js ''New Task''" and d = "js ''Task description''"]
  note c = error_paths_rerender [where h = utcHost and req = emptyTitleRequest
      and api = flakyApi and taskData = cancelledTask]
  note c1 = error_paths_rerender [where h = utcHost and req = validRequest
      and api = flakyApi and due = None
      and t = "js ''New Task''" and d = "js ''Task description''"]
  note r = error_paths_rerender [where h = utcHost and req = emptyTitleRequest
      and api = rejectingApi]
  have 1: "postTasksCreate utcHost readOnlyApi emptyTitleRequest =
     Render ''tasks/create''
       (emptyBag\<lparr>errors := Some [titleRequired],
                 formData := Some (body emptyTitleRequest),
                 csrfToken := Some (csrfTokenOf emptyTitleRequest)\<rparr>)"
    using a n unfolding e by blast
  have 2: "postTasksCreate utcHost readOnlyApi validRequest =
     Render ''tasks/create''
       (emptyBag\<lparr>error := Some ''Failed to create task. Please try again.'',
                 formData := Some (body validRequest),
                 csrfToken := Some (csrfTokenOf validRequest)\<rparr>)"
    using b1 validRequest_valid b w(1) by blast
  have 3: "postTasksEdit utcHost readOnlyApi emptyTitleRequest =
     Render ''tasks/edit''
       (emptyBag\<lparr>task := Some (formatSingleTask utcHost cancelledTask),
                 errors := Some [titleRequired],
                 formData := Some (body emptyTitleRequest),
                 csrfToken := Some (csrfTokenOf emptyTitleRequest)\<rparr>)"
    using a n g(1) unfolding e by blast
  have 4: "postTasksEdit utcHost flakyApi emptyTitleRequest =
     Render ''tasks/edit''
       (emptyBag\<lparr>task := Some (formatSingleTask utcHost cancelledTask),
                 error := Some ''Failed to update task. Please try again.'',
                 formData := Some (body emptyTitleRequest),
                 csrfToken := Some (csrfTokenOf emptyTitleRequest)\<rparr>)"
    using c n g(2,3) by blast
  have 5: "postTasksEdit utcHost readOnlyApi validRequest =
     Render ''tasks/edit''
       (emptyBag\<lparr>task := Some (formatSingleTask utcHost cancelledTask),
                 error := Some ''Failed to update task. Please try again.'',
                 formData := Some (body validRequest),
                 csrfToken := Some (csrfTokenOf validRequest)\<rparr>)"
    using b1 validRequest_valid b w(2) g(1) by blast
  have 6: "postTasksEdit utcHost flakyApi validRequest =
     Render ''error'' (emptyBag\<lparr>message := Some ''Failed to update task''\<rparr>)"
    using c1 validRequest_valid b w(3) g(2) by blast
  have 7: "postTasksEdit utcHost rejectingApi emptyTitleRequest =
     Render ''error'' (emptyBag\<lparr>message := Some ''Failed to update task''\<rparr>)"
    using r n g(4,5) by blast
  have 8: "\<exists>due t d. validateTaskForm utcHost (body validRequest) = Inr ([], due) \<and>
              title (body validRequest) = Some t \<and> description (body validRequest) = Some d"
    using b1 s by blast
  show ?thesis by (intro conjI) (rule 1 2 3 4 5 6 7 8)+
qed

section \<open>The client's validator against the server's\<close>

text \<open>
  Claim C1 fails: the two validators do not make the same decision. A title of two
  characters (with a description and no due date) is accepted by the server, whose
  error list is empty, and rejected by the client with "Title must be at least 3
  characters long".
\<close>

theorem client_rejects_short_title:
  "validateTaskForm utcHost shortTitleForm = Inr ([], None) \<and>
   taskFormSubmit utcHost shortTitleInputs = (True, [titleTooShort])"
proof -
  have S: "serverErrors utcHost shortTitleForm = []"
    unfolding serverErrors_shape
    by (simp add: shortTitleForm_def truthy_def shortTitle_trim example_description_trim)
  obtain due where v: "validateTaskForm utcHost shortTitleForm = Inr ([], due)"
    using validateTaskForm_returns [of utcHost shortTitleForm] unfolding S by blast
  have "due = None"
    using v unfolding validateTaskForm_eq Let_def
    by (simp add: shortTitleForm_def truthy_def)
  moreover have "taskFormSubmit utcHost shortTitleInputs = (True, [titleTooShort])"
    unfolding taskFormSubmit_def
      clientTitle_shape [of shortTitleInputs "js ''ab''", unfolded shortTitleInputs_def, simplified, folded shortTitleInputs_def]
    by (simp add: clientDescription_def clientDueDate_def shortTitleInputs_def Let_def
          shortTitle_trim example_description_trim)
  ultimately show ?thesis using v by simp
qed

text \<open>
  Claim C1, amended. For every submission whose fields are all present, with the same
  values in the inputs of the form, on the same host, and with no due-date field that
  is white space only, the two validators relate as follows. The server reports
  "Title is required" exactly when the client does, and likewise "Description is
  required". The client alone reports "Title must be at least 3 characters long",
  exactly when the trimmed title is not empty and shorter than 3, and "Description
  must be at least 10 characters long", exactly when the trimmed description is not
  empty and shorter than 10. The client's error list is its title error, then its
  description error, then its due-date errors, and its error flag is set exactly when
  that list is not empty. The client's due-date errors are no error, the
  incomplete-date error, the invalid-date error or "Due date cannot be in the past":
  the incomplete-date error exactly when the server's is; the invalid-date error
  exactly when the server's is the invalid-date error, or the day and month are not
  empty and the year is a number below 2020; "Due date cannot be in the past"
  exactly when the server's is "Due date must be in the future", the year is not
  below 2020 and the date is before today; and no error exactly when the year is not
  below 2020 and the server has no due-date error or has "Due date must be in the
  future" for a date that is not before today. In particular a due date that the
  server rejects as invalid the client rejects as invalid; a due date that the
  client rejects as past the server rejects as not in the future; a due date without
  a client error has no server error or the server's "Due date must be in the
  future"; and a submission that the server accepts, whose trimmed title has at
  least 3 and whose trimmed description has at least 10 characters and whose year is
  not below 2020, is accepted by the client.
\<close>

theorem validators_agreement:
  assumes fd: "title fd = Some tv" "description fd = Some dv" "due_date_day fd = Some ds"
              "due_date_month fd = Some ms" "due_date_year fd = Some ys"
      and form: "titleInput form = Some tv" "descriptionInput form = Some dv"
                "dayInput form = Some ds" "monthInput form = Some ms" "yearInput form = Some ys"
      and W: "trim ds = [] \<longrightarrow> ds = []" "trim ms = [] \<longrightarrow> ms = []" "trim ys = [] \<longrightarrow> ys = []"
  shows "(titleRequired \<in> set (serverErrors h fd) \<longleftrightarrow>
            titleRequired \<in> set (snd (taskFormSubmit h form))) \<and>
         (descriptionRequired \<in> set (serverErrors h fd) \<longleftrightarrow>
            descriptionRequired \<in> set (snd (taskFormSubmit h form))) \<and>
         (dueDateErrors (serverErrors h fd) = [incompleteDate] \<longleftrightarrow>
            dueDateErrors (snd (taskFormSubmit h form)) = [incompleteDate]) \<and>
         (dueDateErrors (serverErrors h fd) = [invalidDate] \<longrightarrow>
            dueDateErrors (snd (taskFormSubmit h form)) = [invalidDate]) \<and>
         (dueDateErrors (snd (taskFormSubmit h form)) = [inThePast] \<longrightarrow>
            dueDateErrors (serverErrors h fd) = [notInFuture]) \<and>
         (dueDateErrors (snd (taskFormSubmit h form)) = [] \<longrightarrow>
            dueDateErrors (serverErrors h fd) = [] \<or>
            dueDateErrors (serverErrors h fd) = [notInFuture]) \<and>
         (serverErrors h fd = [] \<and> 3 \<le> length (trim tv) \<and> 10 \<le> length (trim dv) \<and>
          \<not> num_lt (parseInt ys) (Some 2020) \<longrightarrow>
            taskFormSubmit h form = (False, [])) \<and>
         (titleTooShort \<in> set (snd (taskFormSubmit h form)) \<longleftrightarrow>
            trim tv \<noteq> [] \<and> length (trim tv) < 3) \<and>
         (descriptionTooShort \<in> set (snd (taskFormSubmit h form)) \<longleftrightarrow>
            trim dv \<noteq> [] \<and> length (trim dv) < 10) \<and>
         titleTooShort \<notin> set (serverErrors h fd) \<and>
         descriptionTooShort \<notin> set (serverErrors h fd) \<and>
         snd (taskFormSubmit h form) =
           (if trim tv = [] then [titleRequired]
            else if length (trim tv) < 3 then [titleTooShort] else []) @
           (if trim dv = [] then [descriptionRequired]
            else if length (trim dv) < 10 then [descriptionTooShort] else []) @
           dueDateErrors (snd (taskFormSubmit h form)) \<and>
         (fst (taskFormSubmit h form) \<longleftrightarrow> snd (taskFormSubmit h form) \<noteq> []) \<and>
         dueDateErrors (snd (taskFormSubmit h form)) \<in>
           {[], [incompleteDate], [invalidDate], [inThePast]} \<and>
         (dueDateErrors (snd (taskFormSubmit h form)) = [invalidDate] \<longleftrightarrow>
            dueDateErrors (serverErrors h fd) = [invalidDate] \<or>
            ds \<noteq> [] \<and> ms \<noteq> [] \<and> num_lt (parseInt ys) (Some 2020)) \<and>
         (dueDateErrors (snd (taskFormSubmit h form)) = [inThePast] \<longleftrightarrow>
            dueDateErrors (serverErrors h fd) = [notInFuture] \<and>
            \<not> num_lt (parseInt ys) (Some 2020) \<and>
            num_lt (newDate h (parseInt ys) (num_minus (parseInt ms) 1) (parseInt ds))
                   (setHours0 h (Some (now h)))) \<and>
         (dueDateErrors (snd (taskFormSubmit h form)) = [] \<longleftrightarrow>
            \<not> num_lt (parseInt ys) (Some 2020) \<and>
            (dueDateErrors (serverErrors h fd) = [] \<or>
             dueDateErrors (serverErrors h fd) = [notInFuture] \<and>
             \<not> num_lt (newDate h (parseInt ys) (num_minus (parseInt ms) 1) (parseInt ds))
                      (setHours0 h (Some (now h)))))"
proof -
  define D where "D = newDate h (parseInt ys) (num_minus (parseInt ms) 1) (parseInt ds)"
  define anyd where "anyd \<longleftrightarrow> ds \<noteq> [] \<or> ms \<noteq> [] \<or> ys \<noteq> []"
  define alld where "alld \<longleftrightarrow> ds \<noteq> [] \<and> ms \<noteq> [] \<and> ys \<noteq> []"
  define M where "M \<longleftrightarrow> num_neq (getDate h D) (parseInt ds) \<or>
                       num_neq (getMonth h D) (num_minus (parseInt ms) 1)"
  define R where "R \<longleftrightarrow> isNaN (parseInt ds) \<or> isNaN (parseInt ms) \<or> isNaN (parseInt ys) \<or>
               num_lt (parseInt ds) (Some 1) \<or> num_gt (parseInt ds) (Some 31) \<or>
               num_lt (parseInt ms) (Some 1) \<or> num_gt (parseInt ms) (Some 12)"
  define Y where "Y \<longleftrightarrow> num_lt (parseInt ys) (Some 2020)"
  define LE where "LE \<longleftrightarrow> num_le D (setHours0 h (Some (now h)))"
  define LT where "LT \<longleftrightarrow> num_lt D (setHours0 h (Some (now h)))"
  define tb where "tb \<longleftrightarrow> trim tv = []"
  define db where "db \<longleftrightarrow> trim dv = []"
  define ts where "ts \<longleftrightarrow> length (trim tv) < 3"
  define dsh where "dsh \<longleftrightarrow> length (trim dv) < 10"
  define deS where "deS = (if \<not> anyd then [] else if \<not> alld then [incompleteDate]
      else if M then [invalidDate] else if LE then [notInFuture] else [])"
  define deC where "deC = (if \<not> anyd then [] else if \<not> alld then [incompleteDate]
      else if (R \<or> Y) \<or> M then [invalidDate] else if LT then [inThePast] else [])"
  have blank: "trim ds = [] \<longleftrightarrow> ds = []" "trim ms = [] \<longleftrightarrow> ms = []"
    "trim ys = [] \<longleftrightarrow> ys = []"
    using W by auto
  have S: "serverErrors h fd =
      (if tb then [titleRequired] else []) @ (if db then [descriptionRequired] else []) @ deS"
    unfolding serverErrors_shape fd deS_def anyd_def alld_def M_def LE_def D_def tb_def db_def
    by (simp add: truthy_def parseInt_opt_def)
  have C: "taskFormSubmit h form =
      (ts \<or> dsh \<or> deC \<noteq> [],
       (if tb then [titleRequired] else if ts then [titleTooShort] else []) @
       (if db then [descriptionRequired] else if dsh then [descriptionTooShort] else []) @ deC)"
    unfolding taskFormSubmit_def clientTitle_shape [OF form(1)]
      clientDescription_shape [OF form(2)] clientDueDate_shape [OF form(3-5)]
      deC_def anyd_def alld_def M_def R_def Y_def LT_def D_def tb_def db_def ts_def dsh_def blank
    by (simp add: disj_ac)
  have dS: "dueDateErrors (serverErrors h fd) = deS"
    unfolding S by (simp add: deS_def)
  have dC: "dueDateErrors (snd (taskFormSubmit h form)) = deC"
    unfolding C by (simp add: deC_def)
  have lt: "LT \<Longrightarrow> LE" unfolding LT_def LE_def by (rule num_lt_le)
  have MR: "\<not> M \<Longrightarrow> \<not> R"
    unfolding M_def R_def D_def using round_trip_in_range [of h "parseInt ys" "parseInt ms" "parseInt ds"]
    by blast
  note dis = error_distinct error_distinct_client
  have nS: "titleRequired \<notin> set deS" "descriptionRequired \<notin> set deS"
    unfolding deS_def using dis(2-7) by simp_all
  have nC: "titleRequired \<notin> set deC" "descriptionRequired \<notin> set deC"
    unfolding deC_def using dis by simp_all
  have 1: "titleRequired \<in> set (serverErrors h fd) \<longleftrightarrow>
            titleRequired \<in> set (snd (taskFormSubmit h form))"
    unfolding S C snd_conv set_append Un_iff using nS(1) nC(1) dis by simp
  have 2: "descriptionRequired \<in> set (serverErrors h fd) \<longleftrightarrow>
            descriptionRequired \<in> set (snd (taskFormSubmit h form))"
    unfolding S C snd_conv set_append Un_iff using nS(2) nC(2) dis dis [symmetric] by simp
  have 3: "deS = [incompleteDate] \<longleftrightarrow> deC = [incompleteDate]"
    unfolding deS_def deC_def using dis dis [symmetric] by simp
  have 4: "deS = [invalidDate] \<longrightarrow> deC = [invalidDate]"
    unfolding deS_def deC_def using dis dis [symmetric] by simp
  have 5: "deC = [inThePast] \<longrightarrow> deS = [notInFuture]"
  proof
    assume c: "deC = [inThePast]"
    have "anyd \<and> alld \<and> \<not> M \<and> LT"
      using c dis dis [symmetric] unfolding deC_def by (simp split: if_splits)
    then show "deS = [notInFuture]" using lt unfolding deS_def by simp
  qed
  have 6: "deC = [] \<longrightarrow> deS = [] \<or> deS = [notInFuture]"
  proof
    assume c: "deC = []"
    have "\<not> anyd \<or> (alld \<and> \<not> M)" using c unfolding deC_def by (simp split: if_splits)
    then show "deS = [] \<or> deS = [notInFuture]" unfolding deS_def by auto
  qed
  have 7: "serverErrors h fd = [] \<and> 3 \<le> length (trim tv) \<and> 10 \<le> length (trim dv) \<and>
          \<not> num_lt (parseInt ys) (Some 2020) \<longrightarrow> taskFormSubmit h form = (False, [])"
  proof
    assume h7: "serverErrors h fd = [] \<and> 3 \<le> length (trim tv) \<and> 10 \<le> length (trim dv) \<and>
          \<not> num_lt (parseInt ys) (Some 2020)"
    have e: "(if tb then [titleRequired] else []) = []"
      "(if db then [descriptionRequired] else []) = []" "deS = []"
      using h7 unfolding S by simp_all
    have a: "\<not> tb" "\<not> db" using e(1,2) by (simp_all split: if_splits)
    have b: "\<not> ts" "\<not> dsh" "\<not> Y" using h7 by (simp_all add: ts_def dsh_def Y_def)
    have "\<not> anyd \<or> (alld \<and> \<not> M \<and> \<not> LE)"
      using e(3) unfolding deS_def by (simp split: if_splits)
    then have "deC = []"
      using b(3) MR lt unfolding deC_def by auto
    then show "taskFormSubmit h form = (False, [])" unfolding C using a b by simp
  qed
  note dis' = error_distinct_short
  have Yn: "Y \<Longrightarrow> ys \<noteq> []"
    unfolding Y_def using parseInt_Some_nonempty [of ys]
    by (cases "parseInt ys") (auto simp: num_lt_def)
  have sC: "titleTooShort \<notin> set deC" "descriptionTooShort \<notin> set deC"
    unfolding deC_def using dis' by simp_all
  have sS: "titleTooShort \<notin> set deS" "descriptionTooShort \<notin> set deS"
    unfolding deS_def using dis' by simp_all
  have 8: "titleTooShort \<in> set (snd (taskFormSubmit h form)) \<longleftrightarrow>
            trim tv \<noteq> [] \<and> length (trim tv) < 3"
    unfolding C snd_conv set_append Un_iff tb_def ts_def dsh_def db_def
    using sC(1) dis' dis' [symmetric] by simp
  have 9: "descriptionTooShort \<in> set (snd (taskFormSubmit h form)) \<longleftrightarrow>
            trim dv \<noteq> [] \<and> length (trim dv) < 10"
    unfolding C snd_conv set_append Un_iff tb_def ts_def dsh_def db_def
    using sC(2) dis' dis' [symmetric] by simp
  have 10: "titleTooShort \<notin> set (serverErrors h fd)"
    unfolding S set_append Un_iff using sS(1) dis' dis' [symmetric] by simp
  have 11: "descriptionTooShort \<notin> set (serverErrors h fd)"
    unfolding S set_append Un_iff using sS(2) dis' dis' [symmetric] by simp
  have 12: "snd (taskFormSubmit h form) =
           (if trim tv = [] then [titleRequired]
            else if length (trim tv) < 3 then [titleTooShort] else []) @
           (if trim dv = [] then [descriptionRequired]
            else if length (trim dv) < 10 then [descriptionTooShort] else []) @ deC"
    unfolding C snd_conv tb_def ts_def dsh_def db_def ..
  have tbs: "tb \<Longrightarrow> ts" "db \<Longrightarrow> dsh" unfolding tb_def ts_def db_def dsh_def by simp_all
  have 13: "fst (taskFormSubmit h form) \<longleftrightarrow> snd (taskFormSubmit h form) \<noteq> []"
    unfolding C fst_conv snd_conv using tbs by auto
  have 14: "deC \<in> {[], [incompleteDate], [invalidDate], [inThePast]}"
    unfolding deC_def by simp
  have 15: "deC = [invalidDate] \<longleftrightarrow> deS = [invalidDate] \<or> ds \<noteq> [] \<and> ms \<noteq> [] \<and> Y"
  proof (cases "anyd \<and> alld")
    case True
    then have "ds \<noteq> []" "ms \<noteq> []" unfolding alld_def by simp_all
    then show ?thesis
      using True MR dis dis [symmetric] unfolding deC_def deS_def by auto
  next
    case False
    have "\<not> (ds \<noteq> [] \<and> ms \<noteq> [] \<and> Y)" using False Yn unfolding anyd_def alld_def by blast
    then show ?thesis
      using False dis dis [symmetric] unfolding deC_def deS_def by auto
  qed
  have 16: "deC = [inThePast] \<longleftrightarrow> deS = [notInFuture] \<and> \<not> Y \<and> LT"
  proof (cases "anyd \<and> alld \<and> \<not> M")
    case True
    then have "\<not> R" using MR by simp
    then show ?thesis
      using True lt dis dis [symmetric] unfolding deC_def deS_def by auto
  next
    case False
    then show ?thesis
      using dis dis [symmetric] unfolding deC_def deS_def by auto
  qed
  have 17: "deC = [] \<longleftrightarrow> \<not> Y \<and> (deS = [] \<or> deS = [notInFuture] \<and> \<not> LT)"
  proof (cases "anyd")
    case False
    then have "\<not> Y" using Yn unfolding anyd_def by blast
    then show ?thesis using False unfolding deC_def deS_def by simp
  next
    case True
    show ?thesis
    proof (cases "alld \<and> \<not> M")
      case True
      then have "\<not> R" using MR by simp
      then show ?thesis
        using True \<open>anyd\<close> lt dis dis [symmetric] unfolding deC_def deS_def by auto
    next
      case False
      then show ?thesis
        using \<open>anyd\<close> dis dis [symmetric] unfolding deC_def deS_def by auto
    qed
  qed
  note r = 1 2 3 4 5 6 7 8 9 10 11 12 13 14 15 [unfolded Y_def]
    16 [unfolded Y_def LT_def D_def] 17 [unfolded Y_def LT_def D_def]
  show ?thesis unfolding dS dC
    by (intro conjI) (rule r)+
qed

theorem validators_agreement_witness:
  "dueDateErrors (serverErrors utcHost formBadRange) = [invalidDate] \<and>
   dueDateErrors (snd (taskFormSubmit utcHost inputsBadRange)) = [invalidDate] \<and>
   serverErrors utcHost formPast2021 = [notInFuture] \<and>
   taskFormSubmit utcHost inputsPast2021 =
     (True, [titleTooShort, descriptionTooShort, inThePast])"
proof -
  have n: "trim (js ''32'') \<noteq> []" "trim (js ''13'') \<noteq> []" "trim (js ''1999'') \<noteq> []"
    by code_simp+
  have p: "parseInt (js ''32'') = Some 32" "parseInt (js ''13'') = Some 13"
    by code_simp+
  have f: "due_date_day formBadRange = Some (js ''32'')"
    "due_date_month formBadRange = Some (js ''13'')"
    "due_date_year formBadRange = Some (js ''1999'')"
    "title formBadRange = Some (js ''New Task'')"
    "description formBadRange = Some (js ''Task description'')"
    by (simp_all add: formBadRange_def)
  have i: "dayInput inputsBadRange = Some (js ''32'')"
    "monthInput inputsBadRange = Some (js ''13'')"
    "yearInput inputsBadRange = Some (js ''1999'')"
    "titleInput inputsBadRange = Some (js ''New Task'')"
    "descriptionInput inputsBadRange = Some (js ''Task description'')"
    by (simp_all add: inputsBadRange_def)
  have t: "truthy (due_date_day formBadRange)" "truthy (due_date_month formBadRange)"
    "truthy (due_date_year formBadRange)"
    unfolding f truthy_def by (simp_all add: js_def)
  have bad: "num_neq (getDate utcHost (newDate utcHost (parseInt_opt (due_date_year formBadRange))
                (num_minus (parseInt_opt (due_date_month formBadRange)) 1)
                (parseInt_opt (due_date_day formBadRange))))
              (parseInt_opt (due_date_day formBadRange)) \<or>
             num_neq (getMonth utcHost (newDate utcHost (parseInt_opt (due_date_year formBadRange))
                (num_minus (parseInt_opt (due_date_month formBadRange)) 1)
                (parseInt_opt (due_date_day formBadRange))))
              (num_minus (parseInt_opt (due_date_month formBadRange)) 1)"
    unfolding f parseInt_opt_def option.case p num_minus_def option.map
    by (rule range_mismatch) simp
  obtain errs where v: "validateTaskForm utcHost formBadRange = Inr (errs, None)"
    and e: "dueDateErrors errs = [invalidDate]"
    using server_invalid [OF t bad] by blast
  have s: "dueDateErrors (serverErrors utcHost formBadRange) = [invalidDate]"
    unfolding serverErrors_def v using e by simp
  have W: "trim (js ''32'') = [] \<longrightarrow> js ''32'' = []" "trim (js ''13'') = [] \<longrightarrow> js ''13'' = []"
    "trim (js ''1999'') = [] \<longrightarrow> js ''1999'' = []"
    using n by simp_all
  have 1: "dueDateErrors (serverErrors utcHost formBadRange) = [invalidDate] \<and>
      dueDateErrors (snd (taskFormSubmit utcHost inputsBadRange)) = [invalidDate]"
    using validators_agreement [OF f(4,5,1,2,3) i(4,5,1,2,3) W, of utcHost] s by blast
  have f': "title formPast2021 = Some (js ''ab'')" "description formPast2021 = Some (js ''short'')"
    "due_date_day formPast2021 = Some (js ''15'')" "due_date_month formPast2021 = Some (js ''6'')"
    "due_date_year formPast2021 = Some (js ''2021'')"
    by (simp_all add: formPast2021_def)
  have i': "titleInput inputsPast2021 = Some (js ''ab'')"
    "descriptionInput inputsPast2021 = Some (js ''short'')"
    "dayInput inputsPast2021 = Some (js ''15'')" "monthInput inputsPast2021 = Some (js ''6'')"
    "yearInput inputsPast2021 = Some (js ''2021'')"
    by (simp_all add: inputsPast2021_def)
  note n' = near_date_nonempty [OF parse_2021]
  have W': "trim (js ''15'') = [] \<longrightarrow> js ''15'' = []" "trim (js ''6'') = [] \<longrightarrow> js ''6'' = []"
    "trim (js ''2021'') = [] \<longrightarrow> js ''2021'' = []"
    using n'(4-6) by simp_all
  have v': "validateTaskForm utcHost formPast2021 = Inr ([notInFuture], None)"
    unfolding validate_parsed [OF f'(3-5) parse_2021 date_2021 getters_2021 utcHost_today]
    using short_fields(1,2) by (simp add: formPast2021_def)
  have s': "serverErrors utcHost formPast2021 = [notInFuture]"
    unfolding serverErrors_def v' by simp
  have y: "\<not> num_lt (parseInt (js ''2021'')) (Some 2020)"
    by (simp add: parse_2021 num_lt_def)
  have l: "num_lt (newDate utcHost (parseInt (js ''2021'')) (num_minus (parseInt (js ''6'')) 1)
                    (parseInt (js ''15'')))
                  (setHours0 utcHost (Some (now utcHost)))"
    unfolding parse_2021 num_minus_def option.map date_2021 utcHost_today
    by (simp add: num_lt_def)
  note a = validators_agreement [OF f' i' W', of utcHost]
  have d: "dueDateErrors (snd (taskFormSubmit utcHost inputsPast2021)) = [inThePast]"
    using a s' y l by simp
  have c: "snd (taskFormSubmit utcHost inputsPast2021) =
      [titleTooShort, descriptionTooShort, inThePast]"
    using a shortTitle_trim(1,2) short_fields(3,4) unfolding d by simp
  have "fst (taskFormSubmit utcHost inputsPast2021)"
    using a unfolding c by simp
  then have 2: "taskFormSubmit utcHost inputsPast2021 =
      (True, [titleTooShort, descriptionTooShort, inThePast])"
    using c by (cases "taskFormSubmit utcHost inputsPast2021") simp
  show ?thesis using 1 s' 2 by blast
qed

end
